theory Spec2Isabelle
  imports Main
begin

section \<open>Verity: a shallow embedding of the admission-control core\<close>

text \<open>
  The Go sources modelled here are \<^verbatim>\<open>utils.go\<close>, \<^verbatim>\<open>rateLimit.go\<close>,
  \<^verbatim>\<open>challengeManager.go\<close>, \<^verbatim>\<open>server.go\<close>, \<^verbatim>\<open>routes.go\<close> and the router
  assembled in \<^verbatim>\<open>main.go\<close>. Mutable state is passed explicitly; one request is
  handled at a time (the locks of the source serialise every state access modelled here).
\<close>

subsection \<open>Time and machine integers\<close>

text \<open>
  A \<^verbatim>\<open>time.Time\<close> is read through \<^verbatim>\<open>UnixNano()\<close>: nanoseconds since the epoch.
  A \<^verbatim>\<open>time.Duration\<close> is a number of nanoseconds.
\<close>

type_synonym time = int
type_synonym duration = int

definition Millisecond :: duration where
  "Millisecond = 1000000"

definition Minute :: duration where
  "Minute = 60000000000"

text \<open>\<^verbatim>\<open>int64\<close> values are integers; an increment wraps around as written out here.\<close>

definition wrap64 :: "int \<Rightarrow> int" where
  "wrap64 x = (x + 2 ^ 63) mod 2 ^ 64 - 2 ^ 63"

text \<open>Go's integer division truncates towards zero.\<close>

definition quo :: "int \<Rightarrow> int \<Rightarrow> int" where
  "quo a b = sgn a * sgn b * (\<bar>a\<bar> div \<bar>b\<bar>)"

subsection \<open>utils.go: the fixed-window rate limiter\<close>

record ipRateLimit =
  Count :: int
  ResetAt :: time

text \<open>
  \<^verbatim>\<open>LimitByIP(ip, limit, window, store)\<close> with \<^verbatim>\<open>time.Now()\<close> passed as \<open>now\<close>.
  The store maps an address to a pointer; the record written back under \<open>ip\<close> is the
  object the pointer designates after the call. \<^verbatim>\<open>info.Count++\<close> cannot overflow: it
  runs only when \<^verbatim>\<open>Count < limit\<close>.
\<close>

definition LimitByIP ::
  "string \<Rightarrow> int \<Rightarrow> duration \<Rightarrow> time \<Rightarrow> (string \<rightharpoonup> ipRateLimit) \<Rightarrow> bool \<times> (string \<rightharpoonup> ipRateLimit)" where
  "LimitByIP ip limit window now store =
     (let info = (case store ip of
                    None \<Rightarrow> \<lparr>Count = 0, ResetAt = now + window\<rparr>
                  | Some i \<Rightarrow> i);
          info = (if now > ResetAt info then \<lparr>Count = 0, ResetAt = now + window\<rparr> else info)
      in if Count info \<ge> limit then (False, store(ip \<mapsto> info))
         else (True, store(ip \<mapsto> info\<lparr>Count := Count info + 1\<rparr>)))"

subsection \<open>rateLimit.go: constants\<close>

definition RequestLimitWindow :: duration where
  "RequestLimitWindow = 10 * Minute"

definition MaxRequestsPerIP :: int where
  "MaxRequestsPerIP = 100"

subsection \<open>challengeManager.go: the replay guard\<close>

record ChallengeManager =
  solvedChallenges :: "string \<rightharpoonup> int"
  expireDuration :: duration

text \<open>
  \<^verbatim>\<open>NewChallengeManager\<close> receives the duration already parsed (the source panics when
  \<^verbatim>\<open>time.ParseDuration\<close> fails; \<^verbatim>\<open>validateConfig\<close> has rejected such a value before).
\<close>

definition NewChallengeManager :: "duration \<Rightarrow> ChallengeManager" where
  "NewChallengeManager d = \<lparr>solvedChallenges = Map.empty, expireDuration = d\<rparr>"

definition AddChallenge :: "string \<Rightarrow> int \<Rightarrow> ChallengeManager \<Rightarrow> ChallengeManager" where
  "AddChallenge challenge expireAt m =
     m\<lparr>solvedChallenges := (solvedChallenges m)(challenge \<mapsto> expireAt)\<rparr>"

definition Exists :: "string \<Rightarrow> ChallengeManager \<Rightarrow> bool" where
  "Exists challenge m = (case solvedChallenges m challenge of Some _ \<Rightarrow> True | None \<Rightarrow> False)"

text \<open>
  \<^verbatim>\<open>cleanupExpired\<close>: \<open>now\<close> is \<^verbatim>\<open>time.Now().UnixNano() / int64(time.Millisecond)\<close>;
  the loop deletes every entry whose value is below it.
\<close>

definition cleanupExpired :: "time \<Rightarrow> ChallengeManager \<Rightarrow> ChallengeManager" where
  "cleanupExpired nowNano m =
     (let now = quo nowNano Millisecond
      in m\<lparr>solvedChallenges :=
             (\<lambda>challenge. case solvedChallenges m challenge of
                  None \<Rightarrow> None
                | Some val \<Rightarrow> if val < now then None else Some val)\<rparr>)"

subsection \<open>float64 arithmetic\<close>

text \<open>
  A finite \<^verbatim>\<open>float64\<close> is \<open>mant * 2 ^ expo\<close>. Every operation computes the exact
  result and rounds it to a 53-bit significand, ties to even, as IEEE 754 binary64 does.
  The exponent range is not modelled: the values \<^verbatim>\<open>getAdjustedComplexity\<close> computes
  are sums and products of \<^verbatim>\<open>int64\<close> values and \<open>0.1\<close>, far from overflow and
  from the subnormal range.
\<close>

record float64 =
  mant :: int
  expo :: int

text \<open>Division by \<open>2 ^ s\<close>, rounded to the nearest integer, ties to even.\<close>

definition rne_shift :: "int \<Rightarrow> nat \<Rightarrow> int" where
  "rne_shift m s =
     (let d = 2 ^ s; q = m div d; r = m mod d
      in if 2 * r < d then q
         else if 2 * r > d then q + 1
         else if even q then q else q + 1)"

text \<open>The number of binary digits of a positive integer.\<close>

function bits :: "int \<Rightarrow> nat" where
  "bits m = (if m \<le> 0 then 0 else Suc (bits (m div 2)))"
  by pat_completeness auto
termination
  by (relation "measure nat") auto

declare bits.simps [simp del]

definition bitlen64 :: "int \<Rightarrow> nat" where
  "bitlen64 m = bits \<bar>m\<bar>"

definition f64_round :: "float64 \<Rightarrow> float64" where
  "f64_round x =
     (let n = bitlen64 (mant x)
      in if n \<le> 53 then x
         else \<lparr>mant = sgn (mant x) * rne_shift \<bar>mant x\<bar> (n - 53), expo = expo x + int (n - 53)\<rparr>)"

definition f64_of_int64 :: "int \<Rightarrow> float64" where
  "f64_of_int64 n = f64_round \<lparr>mant = n, expo = 0\<rparr>"

definition f64_mul :: "float64 \<Rightarrow> float64 \<Rightarrow> float64" where
  "f64_mul x y = f64_round \<lparr>mant = mant x * mant y, expo = expo x + expo y\<rparr>"

definition f64_add :: "float64 \<Rightarrow> float64 \<Rightarrow> float64" where
  "f64_add x y =
     (let e = min (expo x) (expo y)
      in f64_round \<lparr>mant = mant x * 2 ^ nat (expo x - e) + mant y * 2 ^ nat (expo y - e),
                    expo = e\<rparr>)"

text \<open>The literals \<open>1.0\<close> and \<open>0.1\<close>; the latter is the double nearest to one tenth.\<close>

definition f64_one :: float64 where
  "f64_one = \<lparr>mant = 1, expo = 0\<rparr>"

definition f64_tenth :: float64 where
  "f64_tenth = \<lparr>mant = 3602879701896397, expo = - 55\<rparr>"

text \<open>
  \<^verbatim>\<open>int64(f)\<close> discards the fraction (truncation towards zero). For a value outside
  the \<^verbatim>\<open>int64\<close> range Go leaves the result to the implementation; amd64 yields the
  least \<^verbatim>\<open>int64\<close>, which is what is written here.
\<close>

definition int64_of_f64 :: "float64 \<Rightarrow> int" where
  "int64_of_f64 x =
     (let t = (if expo x \<ge> 0 then mant x * 2 ^ nat (expo x)
               else quo (mant x) (2 ^ nat (- expo x)))
      in if - (2 ^ 63) \<le> t \<and> t < 2 ^ 63 then t else - (2 ^ 63))"

subsection \<open>server.go: state and responses\<close>

record StatsEntry =
  TotalChallenges :: int
  SolvedChallenges :: int
  FailedChallenges :: int
  IPThrottleCount :: "string \<rightharpoonup> int"

text \<open>
  Reading a key a Go map does not hold yields the zero value; a \<^verbatim>\<open>nil\<close>
  \<^verbatim>\<open>IPThrottleCount\<close> reads like the empty map and is replaced by one before the write.
\<close>

definition zeroStats :: StatsEntry where
  "zeroStats = \<lparr>TotalChallenges = 0, SolvedChallenges = 0, FailedChallenges = 0,
                 IPThrottleCount = Map.empty\<rparr>"

definition statsOf :: "(string \<rightharpoonup> StatsEntry) \<Rightarrow> string \<Rightarrow> StatsEntry" where
  "statsOf m k = (case m k of None \<Rightarrow> zeroStats | Some e \<Rightarrow> e)"

record ServerConfig =
  HMACKey :: string
  Algorithm :: string
  Complexity :: int
  ExpireTime :: string
  APIKeys :: "string \<rightharpoonup> string list"
  Stats :: "string \<rightharpoonup> StatsEntry"

record Server =
  config :: ServerConfig
  ipRequestCount :: "string \<rightharpoonup> int"
  ipLastRequest :: "string \<rightharpoonup> time"

definition NewServer :: "ServerConfig \<Rightarrow> Server" where
  "NewServer c = \<lparr>config = c, ipRequestCount = Map.empty, ipLastRequest = Map.empty\<rparr>"

record Response =
  Code :: int
  Message :: string

text \<open>The challenge object of the proof-of-work library, returned to the client verbatim.\<close>

record Challenge =
  chAlgorithm :: string
  chChallenge :: string
  chMaxNumber :: int
  chSalt :: string
  chSignature :: string

datatype body = JSONResponse Response | JSONChallenge Challenge | HTMLPage | NoBody

record httpResponse =
  status :: int
  respBody :: body

definition StatusOK :: int where "StatusOK = 200"
definition StatusBadRequest :: int where "StatusBadRequest = 400"
definition StatusUnauthorized :: int where "StatusUnauthorized = 401"
definition StatusForbidden :: int where "StatusForbidden = 403"
definition StatusNotFound :: int where "StatusNotFound = 404"
definition StatusConflict :: int where "StatusConflict = 409"
definition StatusTooManyRequests :: int where "StatusTooManyRequests = 429"
definition StatusInternalServerError :: int where "StatusInternalServerError = 500"

text \<open>
  \<^verbatim>\<open>writeErrorResponse(w, message, status)\<close>: the header carries \<open>status\<close>, the body
  is \<^verbatim>\<open>Response{Code: 400, Message: message}\<close>.
\<close>

definition writeErrorResponse :: "string \<Rightarrow> int \<Rightarrow> httpResponse" where
  "writeErrorResponse message st =
     \<lparr>status = st, respBody = JSONResponse \<lparr>Code = 400, Message = message\<rparr>\<rparr>"

text \<open>
  \<^verbatim>\<open>getAdjustedComplexity\<close>; \<^verbatim>\<open>time.Now()\<close> and \<^verbatim>\<open>time.Since\<close> read the one
  instant \<open>now\<close>.
\<close>

definition getAdjustedComplexity :: "string \<Rightarrow> time \<Rightarrow> Server \<Rightarrow> int \<times> Server" where
  "getAdjustedComplexity ip now s =
     (let (count, exists) = (case ipRequestCount s ip of None \<Rightarrow> (0, False) | Some c \<Rightarrow> (c, True));
          count = (case ipLastRequest s ip of
                     None \<Rightarrow> count
                   | Some lastTime \<Rightarrow> if now - lastTime > 5 * Minute then 0 else count);
          s1 = s\<lparr>ipRequestCount := (ipRequestCount s)(ip \<mapsto> wrap64 (count + 1)),
                 ipLastRequest := (ipLastRequest s)(ip \<mapsto> now)\<rparr>;
          complexity = Complexity (config s)
      in if exists \<and> count > 10
         then (let factor = f64_add f64_one (f64_mul (f64_of_int64 (quo count 10)) f64_tenth)
               in (int64_of_f64 (f64_mul (f64_of_int64 complexity) factor), s1))
         else (complexity, s1))"

subsection \<open>The standard library and the proof-of-work collaborator\<close>

text \<open>
  What \<^verbatim>\<open>json.Unmarshal\<close> stores in an \<^verbatim>\<open>interface{}\<close>: a string, a number, a
  boolean, \<^verbatim>\<open>nil\<close>, a slice or a map.
\<close>

datatype json =
  JString string | JNumber float64 | JBool bool | JNull | JArray "json list"
  | JObject "(string \<times> json) list"

record ChallengeOptions =
  optAlgorithm :: string
  optMaxNumber :: int
  optHMACKey :: string
  optExpires :: time

text \<open>
  The functions of Go's standard library and of \<^verbatim>\<open>altcha-lib-go\<close> that the handlers
  call are parameters of the model; an error return is \<open>None\<close>, or \<open>Inl\<close> with the
  error's text where the handler prints it.
  \<^item> \<open>TrimSpace\<close>: \<^verbatim>\<open>strings.TrimSpace\<close>;
  \<^item> \<open>DecodeString\<close>: \<^verbatim>\<open>base64.StdEncoding.DecodeString\<close>;
  \<^item> \<open>Unmarshal\<close>: \<^verbatim>\<open>json.Unmarshal\<close> into a \<^verbatim>\<open>map[string]interface{}\<close>;
  \<^item> \<open>QueryGet q k\<close>: \<^verbatim>\<open>url.ParseQuery(q)\<close>, its error dropped, then \<^verbatim>\<open>Get(k)\<close>;
  \<^item> \<open>ParseInt\<close>: \<^verbatim>\<open>strconv.ParseInt(s, 10, 64)\<close>;
  \<^item> \<open>ParseDuration\<close>: \<^verbatim>\<open>time.ParseDuration\<close>;
  \<^item> \<open>SplitHostPort\<close>: the host of \<^verbatim>\<open>net.SplitHostPort\<close>;
  \<^item> \<open>CreateChallenge\<close>: \<^verbatim>\<open>altcha.CreateChallenge\<close>;
  \<^item> \<open>VerifySolution payload key checkExpires now\<close>: \<^verbatim>\<open>altcha.VerifySolution\<close>
    called at the instant \<open>now\<close>.
\<close>

record env =
  TrimSpace :: "string \<Rightarrow> string"
  DecodeString :: "string \<Rightarrow> string option"
  Unmarshal :: "string \<Rightarrow> (string \<rightharpoonup> json) option"
  QueryGet :: "string \<Rightarrow> string \<Rightarrow> string"
  ParseInt :: "string \<Rightarrow> int option"
  ParseDuration :: "string \<Rightarrow> duration option"
  SplitHostPort :: "string \<Rightarrow> string option"
  CreateChallenge :: "ChallengeOptions \<Rightarrow> string + Challenge"
  VerifySolution :: "string \<Rightarrow> string \<Rightarrow> bool \<Rightarrow> time \<Rightarrow> string + bool"

text \<open>\<^verbatim>\<open>strings.Split(s, sep)\<close> for a separator of one character.\<close>

fun Split :: "string \<Rightarrow> char \<Rightarrow> string list" where
  "Split [] sep = [[]]"
| "Split (c # cs) sep =
     (if c = sep then [] # Split cs sep
      else (case Split cs sep of
              [] \<Rightarrow> [[c]]
            | p # ps \<Rightarrow> (c # p) # ps))"

definition HasPrefix :: "string \<Rightarrow> string \<Rightarrow> bool" where
  "HasPrefix s pre = (take (length pre) s = pre)"

subsection \<open>Requests\<close>

datatype route = Root | GetChallengeRoute | VerifyChallengeRoute | NoRoute

text \<open>
  A request as the handlers read it: the route the router matched, the \<^verbatim>\<open>apiKey\<close>
  query parameter and the headers (empty when absent, as \<^verbatim>\<open>Get\<close> returns them), the
  peer address, and the body (\<open>None\<close> when \<^verbatim>\<open>io.ReadAll\<close> fails).
\<close>

record Request =
  reqRoute :: route
  apiKeyParam :: string
  Origin :: string
  XForwardedFor :: string
  XRealIP :: string
  RemoteAddr :: string
  Body :: "string option"

definition GetRealIP :: "env \<Rightarrow> Request \<Rightarrow> string" where
  "GetRealIP e r =
     (if XForwardedFor r \<noteq> [] then TrimSpace e (hd (Split (XForwardedFor r) CHR '',''))
      else if XRealIP r \<noteq> [] then XRealIP r
      else (case SplitHostPort e (RemoteAddr r) of
              None \<Rightarrow> RemoteAddr r
            | Some ip \<Rightarrow> ip))"

subsection \<open>rateLimit.go and main.go: the process state\<close>

record RateLimiter =
  ipLimits :: "string \<rightharpoonup> ipRateLimit"

definition NewRateLimiter :: RateLimiter where
  "NewRateLimiter = \<lparr>ipLimits = Map.empty\<rparr>"

text \<open>
  The objects \<^verbatim>\<open>main\<close> creates: the server, the rate limiter and the global
  \<^verbatim>\<open>cm\<close>.
\<close>

record World =
  srv :: Server
  limiter :: RateLimiter
  cm :: ChallengeManager

text \<open>
  What a handler leaves behind: the response written, or a panic (which chi's
  \<^verbatim>\<open>Recoverer\<close>, the outermost middleware, catches); the calls made to the
  proof-of-work library, each with its result; and the state after the request.
\<close>

datatype outcome = Responded httpResponse | Panicked

datatype call =
  Created ChallengeOptions "string + Challenge"
  | Verified string "string + bool"

type_synonym handled = "outcome \<times> call list \<times> World"

text \<open>A handler reads the clock, the API key stored in the request context, and the request.\<close>

type_synonym handler = "env \<Rightarrow> time \<Rightarrow> string option \<Rightarrow> Request \<Rightarrow> World \<Rightarrow> handled"

subsection \<open>routes.go: the handlers\<close>

text \<open>
  \<^verbatim>\<open>handleRoot\<close> renders the totals of the statistics into a constant HTML template
  and changes nothing.
\<close>

definition handleRoot :: handler where
  "handleRoot e now ctx r w = (Responded \<lparr>status = StatusOK, respBody = HTMLPage\<rparr>, [], w)"

definition handleGetChallenge :: handler where
  "handleGetChallenge e now ctx r w =
     (case ctx of
        None \<Rightarrow>
          (Responded (writeErrorResponse ''Missing API key in context'' StatusInternalServerError),
           [], w)
      | Some apiKey \<Rightarrow>
          (let ip = GetRealIP e r;
               duration = (case ParseDuration e (ExpireTime (config (srv w))) of
                             None \<Rightarrow> 5 * Minute
                           | Some d \<Rightarrow> d);
               expires = now + duration;
               (complexity, s1) = getAdjustedComplexity ip now (srv w);
               challengeOptions =
                 \<lparr>optAlgorithm = Algorithm (config s1), optMaxNumber = complexity,
                  optHMACKey = HMACKey (config s1), optExpires = expires\<rparr>;
               created = CreateChallenge e challengeOptions
           in case created of
                Inl err \<Rightarrow>
                  (Responded (writeErrorResponse (''Failed to create challenge: '' @ err)
                                StatusInternalServerError),
                   [Created challengeOptions created], w\<lparr>srv := s1\<rparr>)
              | Inr challenge \<Rightarrow>
                  (let stats = statsOf (Stats (config s1)) apiKey;
                       stats = stats\<lparr>TotalChallenges := wrap64 (TotalChallenges stats + 1)\<rparr>;
                       stats = stats\<lparr>IPThrottleCount := (IPThrottleCount stats)
                                 (ip \<mapsto> wrap64 ((case IPThrottleCount stats ip of
                                                     None \<Rightarrow> 0 | Some n \<Rightarrow> n) + 1))\<rparr>;
                       s2 = s1\<lparr>config := (config s1)\<lparr>Stats := (Stats (config s1))(apiKey \<mapsto> stats)\<rparr>\<rparr>
                   in (Responded \<lparr>status = StatusOK, respBody = JSONChallenge challenge\<rparr>,
                       [Created challengeOptions created], w\<lparr>srv := s2\<rparr>))))"

text \<open>
  \<^verbatim>\<open>handleVerifyChallenge\<close>. \<^verbatim>\<open>payload["challenge"].(string)\<close> is the checked type
  assertion; \<^verbatim>\<open>payload["salt"].(string)\<close> is the unchecked one, which panics unless the
  field holds a string. The two final branches write no status, so the response has
  Go's default, 200.
\<close>

definition handleVerifyChallenge :: handler where
  "handleVerifyChallenge e now ctx r w =
     (case ctx of
        None \<Rightarrow>
          (Responded (writeErrorResponse ''Missing API key in context'' StatusInternalServerError),
           [], w)
      | Some apiKey \<Rightarrow>
     (case Body r of
        None \<Rightarrow>
          (Responded (writeErrorResponse ''Failed to read request body'' StatusBadRequest), [], w)
      | Some bodyBytes \<Rightarrow>
     (let encodedPayload = TrimSpace e bodyBytes in
      case DecodeString e encodedPayload of
        None \<Rightarrow>
          (Responded (writeErrorResponse ''Invalid base64 encoding'' StatusBadRequest), [], w)
      | Some decodedBytes \<Rightarrow>
     (case Unmarshal e decodedBytes of
        None \<Rightarrow>
          (Responded (writeErrorResponse ''Invalid JSON payload'' StatusBadRequest), [], w)
      | Some payload \<Rightarrow>
     (case payload ''challenge'' of
        Some (JString challengeID) \<Rightarrow>
          (case payload ''salt'' of
             Some (JString salt) \<Rightarrow>
               (case Split salt CHR ''?'' of
                  base # query # rest \<Rightarrow>
                    (case ParseInt e (QueryGet e query ''expires'') of
                       None \<Rightarrow>
                         (Responded (writeErrorResponse ''Invalid challenge format'' StatusBadRequest),
                          [], w)
                     | Some challengeExpire \<Rightarrow>
                         if challengeExpire < 1
                         then (Responded (writeErrorResponse ''Invalid challenge format''
                                            StatusBadRequest), [], w)
                         else if Exists challengeID (cm w)
                         then (Responded (writeErrorResponse ''Challenge already solved''
                                            StatusConflict), [], w)
                         else
                           (let res = VerifySolution e encodedPayload (HMACKey (config (srv w)))
                                        True now
                            in case res of
                                 Inl err \<Rightarrow>
                                   (Responded (writeErrorResponse (''Verification error: '' @ err)
                                                 StatusInternalServerError),
                                    [Verified encodedPayload res], w)
                               | Inr verified \<Rightarrow>
                                   if verified
                                   then
                                     (let cm1 = AddChallenge challengeID challengeExpire (cm w);
                                          stats = statsOf (Stats (config (srv w))) apiKey;
                                          stats = stats\<lparr>SolvedChallenges :=
                                                           wrap64 (SolvedChallenges stats + 1)\<rparr>;
                                          s1 = (srv w)\<lparr>config := (config (srv w))
                                                  \<lparr>Stats := (Stats (config (srv w)))(apiKey \<mapsto> stats)\<rparr>\<rparr>
                                      in (Responded \<lparr>status = StatusOK,
                                            respBody = JSONResponse \<lparr>Code = StatusOK, Message = ''OK''\<rparr>\<rparr>,
                                          [Verified encodedPayload res], w\<lparr>srv := s1, cm := cm1\<rparr>))
                                   else
                                     (let stats = statsOf (Stats (config (srv w))) apiKey;
                                          stats = stats\<lparr>FailedChallenges :=
                                                           wrap64 (FailedChallenges stats + 1)\<rparr>;
                                          s1 = (srv w)\<lparr>config := (config (srv w))
                                                  \<lparr>Stats := (Stats (config (srv w)))(apiKey \<mapsto> stats)\<rparr>\<rparr>
                                      in (Responded \<lparr>status = StatusOK,
                                            respBody = JSONResponse \<lparr>Code = StatusBadRequest,
                                                                     Message = ''Invalid payload''\<rparr>\<rparr>,
                                          [Verified encodedPayload res], w\<lparr>srv := s1\<rparr>))))
                | _ \<Rightarrow>
                    (Responded (writeErrorResponse ''Invalid challenge format'' StatusBadRequest),
                     [], w))
           | _ \<Rightarrow> (Panicked, [], w))
      | _ \<Rightarrow>
          (Responded (writeErrorResponse ''Invalid challenge format'' StatusBadRequest), [], w))))))"

subsection \<open>rateLimit.go: the middlewares\<close>

text \<open>The loop over \<^verbatim>\<open>allowedOrigins\<close>, left at the first match.\<close>

fun originAllowed :: "string \<Rightarrow> string list \<Rightarrow> bool" where
  "originAllowed origin [] = False"
| "originAllowed origin (allowedOrigin # rest) =
     (if origin = allowedOrigin \<or> allowedOrigin = ''*'' then True
      else originAllowed origin rest)"

definition APIKeyMiddleware :: "handler \<Rightarrow> handler" where
  "APIKeyMiddleware next e now ctx r w =
     (let apiKey = apiKeyParam r in
      if apiKey = [] then
        (Responded (writeErrorResponse ''Missing API key'' StatusUnauthorized), [], w)
      else if \<not> HasPrefix apiKey ''vrty_'' then
        (Responded (writeErrorResponse ''Invalid API key format'' StatusUnauthorized), [], w)
      else
        (case APIKeys (config (srv w)) apiKey of
           None \<Rightarrow> (Responded (writeErrorResponse ''Invalid API key'' StatusUnauthorized), [], w)
         | Some allowedOrigins \<Rightarrow>
             (let origin = Origin r;
                  valid = (if origin \<noteq> [] then originAllowed origin allowedOrigins else False)
              in if \<not> valid then
                   (Responded (writeErrorResponse ''Invalid origin'' StatusForbidden), [], w)
                 else next e now (Some apiKey) r w)))"

definition RateLimitMiddleware :: "handler \<Rightarrow> handler" where
  "RateLimitMiddleware next e now ctx r w =
     (let ip = GetRealIP e r;
          (allowed, store) = LimitByIP ip MaxRequestsPerIP RequestLimitWindow now
                               (ipLimits (limiter w));
          w1 = w\<lparr>limiter := (limiter w)\<lparr>ipLimits := store\<rparr>\<rparr>
      in if \<not> allowed then
           (Responded (writeErrorResponse ''Rate limit exceeded'' StatusTooManyRequests), [], w1)
         else next e now ctx r w1)"

subsection \<open>main.go: the router and the life of the process\<close>

text \<open>
  The routes of \<^verbatim>\<open>main\<close>: the rate limiter is installed on the whole router, the API
  key middleware on the two challenge routes only. Any other request gets the router's
  404.
\<close>

definition routes :: handler where
  "routes e now ctx r w =
     (case reqRoute r of
        Root \<Rightarrow> handleRoot e now ctx r w
      | GetChallengeRoute \<Rightarrow> APIKeyMiddleware handleGetChallenge e now ctx r w
      | VerifyChallengeRoute \<Rightarrow> APIKeyMiddleware handleVerifyChallenge e now ctx r w
      | NoRoute \<Rightarrow> (Responded \<lparr>status = StatusNotFound, respBody = NoBody\<rparr>, [], w))"

definition serveHTTP :: "env \<Rightarrow> time \<Rightarrow> Request \<Rightarrow> World \<Rightarrow> handled" where
  "serveHTTP e now r w = RateLimitMiddleware routes e now None r w"

text \<open>
  \<^verbatim>\<open>main\<close> after \<^verbatim>\<open>LoadConfig\<close>: \<open>None\<close> is the panic of \<^verbatim>\<open>NewChallengeManager\<close>
  on an \<^verbatim>\<open>ExpireTime\<close> that does not parse. The state starts when \<^verbatim>\<open>cm\<close> has been
  assigned; the moment between the start of the listener and that assignment is not
  modelled.
\<close>

definition boot :: "env \<Rightarrow> ServerConfig \<Rightarrow> World option" where
  "boot e c =
     (case ParseDuration e (ExpireTime c) of
        None \<Rightarrow> None
      | Some d \<Rightarrow> Some \<lparr>srv = NewServer c, limiter = NewRateLimiter, cm = NewChallengeManager d\<rparr>)"

text \<open>
  What happens to the process afterwards: a request is served at some instant, or the
  ticker of \<^verbatim>\<open>cleanupLoop\<close> fires. \<open>run\<close> returns the calls made to the proof-of-work
  library along the way and the final state.
\<close>

datatype event = Serve time Request | Tick time

fun run :: "env \<Rightarrow> event list \<Rightarrow> World \<Rightarrow> call list \<times> World" where
  "run e [] w = ([], w)"
| "run e (Serve now r # evs) w =
     (let (out, cs, w1) = serveHTTP e now r w;
          (cs', w2) = run e evs w1
      in (cs @ cs', w2))"
| "run e (Tick now # evs) w = run e evs (w\<lparr>cm := cleanupExpired now (cm w)\<rparr>)"

text \<open>Whether an event is a request whose client address resolves to \<open>ip\<close>.\<close>

definition fromAddr :: "env \<Rightarrow> string \<Rightarrow> event \<Rightarrow> bool" where
  "fromAddr e ip ev = (case ev of Serve now r \<Rightarrow> GetRealIP e r = ip | Tick now \<Rightarrow> False)"

subsection \<open>Reading a served request\<close>

definition statusOf :: "handled \<Rightarrow> int option" where
  "statusOf h = (case fst h of Responded resp \<Rightarrow> Some (status resp) | Panicked \<Rightarrow> None)"

definition callsOf :: "handled \<Rightarrow> call list" where
  "callsOf h = fst (snd h)"

definition worldOf :: "handled \<Rightarrow> World" where
  "worldOf h = snd (snd h)"

text \<open>
  The solution a well-formed payload carries, following steps 1 to 5 of the verification
  flow in the specification: the base64 text decodes, the result parses as a JSON object,
  its \<^verbatim>\<open>challenge\<close> and \<^verbatim>\<open>salt\<close> fields are strings, the salt has a query part after
  its first \<^verbatim>\<open>?\<close>, and the query part holds an integer \<^verbatim>\<open>expires\<close> of at least 1.
\<close>

definition solutionOf :: "env \<Rightarrow> string \<Rightarrow> (string \<times> int) option" where
  "solutionOf e encoded =
     (case DecodeString e encoded of
        None \<Rightarrow> None
      | Some decoded \<Rightarrow>
          (case Unmarshal e decoded of
             None \<Rightarrow> None
           | Some payload \<Rightarrow>
               (case (payload ''challenge'', payload ''salt'') of
                  (Some (JString challengeID), Some (JString salt)) \<Rightarrow>
                    (case Split salt CHR ''?'' of
                       base # query # rest \<Rightarrow>
                         (case ParseInt e (QueryGet e query ''expires'') of
                            None \<Rightarrow> None
                          | Some expires \<Rightarrow> if expires < 1 then None else Some (challengeID, expires))
                     | _ \<Rightarrow> None)
                | _ \<Rightarrow> None)))"

subsection \<open>Sample inputs\<close>

text \<open>
  Three request bodies, in base64, and the JSON documents they encode:
  a payload the proof-of-work library accepts, one it rejects, and one without a
  \<^verbatim>\<open>salt\<close> field.
\<close>

definition goodBody :: string where
  \<open>goodBody = ''eyJhbGdvcml0aG0iOiJTSEEtMjU2IiwiY2hhbGxlbmdlIjoiYzEiLCJudW1iZXIiOjcsInNhbHQiOiJhYj9leHBpcmVzPTE3OTMwMDAzMDAiLCJzaWduYXR1cmUiOiJzMSJ9''\<close>

definition goodJSON :: string where
  \<open>goodJSON = ''{"algorithm":"SHA-256","challenge":"c1","number":7,"salt":"ab?expires=1793000300","signature":"s1"}''\<close>

definition badBody :: string where
  \<open>badBody = ''eyJhbGdvcml0aG0iOiJTSEEtMjU2IiwiY2hhbGxlbmdlIjoiYzIiLCJudW1iZXIiOjgsInNhbHQiOiJhYj9leHBpcmVzPTE3OTMwMDAzMDAiLCJzaWduYXR1cmUiOiJzMiJ9''\<close>

definition badJSON :: string where
  \<open>badJSON = ''{"algorithm":"SHA-256","challenge":"c2","number":8,"salt":"ab?expires=1793000300","signature":"s2"}''\<close>

definition saltlessBody :: string where
  \<open>saltlessBody = ''eyJjaGFsbGVuZ2UiOiJjMyJ9''\<close>

definition saltlessJSON :: string where
  \<open>saltlessJSON = ''{"challenge":"c3"}''\<close>

definition sampleChallenge :: Challenge where
  "sampleChallenge =
     \<lparr>chAlgorithm = ''SHA-256'', chChallenge = ''c1'', chMaxNumber = 50000,
      chSalt = ''ab?expires=1793000300'', chSignature = ''s1''\<rparr>"

text \<open>
  The answers of the library functions on these inputs, as a table: what Go's decoders
  return for the three bodies, and a proof-of-work library that accepts the first
  payload and rejects every other. \<open>TrimSpace\<close> is the identity, as it is on a text
  without surrounding white space. A decoder input the table does not list is answered
  with the error value; the evaluations below use listed inputs only.
\<close>

definition sampleEnv :: env where
  "sampleEnv =
     \<lparr>TrimSpace = (\<lambda>s. s),
      DecodeString = (\<lambda>s. if s = goodBody then Some goodJSON
                           else if s = badBody then Some badJSON
                           else if s = saltlessBody then Some saltlessJSON
                           else None),
      Unmarshal = (\<lambda>s. if s = goodJSON then
                            Some [''algorithm'' \<mapsto> JString ''SHA-256'', ''challenge'' \<mapsto> JString ''c1'',
                                  ''number'' \<mapsto> JNumber \<lparr>mant = 7, expo = 0\<rparr>,
                                  ''salt'' \<mapsto> JString ''ab?expires=1793000300'',
                                  ''signature'' \<mapsto> JString ''s1'']
                        else if s = badJSON then
                            Some [''algorithm'' \<mapsto> JString ''SHA-256'', ''challenge'' \<mapsto> JString ''c2'',
                                  ''number'' \<mapsto> JNumber \<lparr>mant = 8, expo = 0\<rparr>,
                                  ''salt'' \<mapsto> JString ''ab?expires=1793000300'',
                                  ''signature'' \<mapsto> JString ''s2'']
                        else if s = saltlessJSON then Some [''challenge'' \<mapsto> JString ''c3'']
                        else None),
      QueryGet = (\<lambda>q k. if q = ''expires=1793000300'' \<and> k = ''expires'' then ''1793000300''
                         else []),
      ParseInt = (\<lambda>s. if s = ''1793000300'' then Some 1793000300 else None),
      ParseDuration = (\<lambda>s. if s = ''5m'' then Some (5 * Minute) else None),
      SplitHostPort = (\<lambda>s. if s = ''203.0.113.9:40000'' then Some ''203.0.113.9'' else None),
      CreateChallenge = (\<lambda>opts. Inr sampleChallenge),
      VerifySolution = (\<lambda>p key checkExpires now. Inr (p = goodBody))\<rparr>"

definition sampleConfig :: ServerConfig where
  "sampleConfig =
     \<lparr>HMACKey = ''secret'', Algorithm = ''SHA-256'', Complexity = 50000, ExpireTime = ''5m'',
      APIKeys = [''vrty_00112233445566778899aabbccddeeff'' \<mapsto> [''https://example.org'']],
      Stats = Map.empty\<rparr>"

definition sampleWorld :: World where
  "sampleWorld =
     \<lparr>srv = NewServer sampleConfig, limiter = NewRateLimiter,
      cm = NewChallengeManager (5 * Minute)\<rparr>"

definition sampleRequest :: Request where
  "sampleRequest =
     \<lparr>reqRoute = VerifyChallengeRoute,
      apiKeyParam = ''vrty_00112233445566778899aabbccddeeff'',
      Origin = ''https://example.org'',
      XForwardedFor = [], XRealIP = [], RemoteAddr = ''203.0.113.9:40000'',
      Body = Some goodBody\<rparr>"

definition sampleKey :: string where
  "sampleKey = ''vrty_00112233445566778899aabbccddeeff''"

text \<open>The sample request with the rejected payload, and the same request without a key.\<close>

definition wrongSolutionRequest :: Request where
  "wrongSolutionRequest = sampleRequest\<lparr>Body := Some badBody\<rparr>"

definition keylessRequest :: Request where
  "keylessRequest = sampleRequest\<lparr>apiKeyParam := []\<rparr>"

definition afterWrongSolution :: World where
  "afterWrongSolution = snd (run sampleEnv [Serve 0 wrongSolutionRequest] sampleWorld)"

definition saltlessRequest :: Request where
  "saltlessRequest = sampleRequest\<lparr>Body := Some saltlessBody\<rparr>"

text \<open>
  Three instants of 26 October 2026, in nanoseconds: 07:33:30, 07:33:40 and 07:33:50 UTC.
  The \<^verbatim>\<open>expires\<close> parameter of the sample salt, 1793000300, is 07:38:20 UTC of that
  day counted in seconds, the unit in which \<^verbatim>\<open>altcha-lib-go\<close> writes and checks it.
\<close>

definition solvedAt :: time where
  "solvedAt = 1793000010000000000"

definition sweptAt :: time where
  "sweptAt = 1793000020000000000"

definition replayedAt :: time where
  "replayedAt = 1793000030000000000"

definition afterSweep :: World where
  "afterSweep = snd (run sampleEnv [Serve solvedAt sampleRequest, Tick sweptAt] sampleWorld)"

text \<open>
  A server on which the sample address has just made 25 issuance requests, with the base
  complexity \<open>B\<close>.
\<close>

definition busyServer :: "int \<Rightarrow> Server" where
  "busyServer B =
     (NewServer (sampleConfig\<lparr>Complexity := B\<rparr>))
       \<lparr>ipRequestCount := [''203.0.113.9'' \<mapsto> 25], ipLastRequest := [''203.0.113.9'' \<mapsto> 0]\<rparr>"

section \<open>Properties\<close>

subsection \<open>Rate limiter\<close>

lemma LimitByIP_fresh:
  "store ip = None \<Longrightarrow> 0 < limit \<Longrightarrow>
   LimitByIP ip limit window t store = (True, store(ip \<mapsto> \<lparr>Count = 1, ResetAt = t + window\<rparr>))"
  by (simp add: LimitByIP_def Let_def)

lemma LimitByIP_within:
  "store ip = Some \<lparr>Count = c, ResetAt = r\<rparr> \<Longrightarrow> t \<le> r \<Longrightarrow>
   LimitByIP ip limit window t store =
     (c < limit, store(ip \<mapsto> \<lparr>Count = (if c < limit then c + 1 else c), ResetAt = r\<rparr>))"
  by (auto simp add: LimitByIP_def Let_def)

lemma LimitByIP_elapsed:
  "store ip = Some \<lparr>Count = c, ResetAt = r\<rparr> \<Longrightarrow> r < t \<Longrightarrow> 0 < limit \<Longrightarrow>
   LimitByIP ip limit window t store = (True, store(ip \<mapsto> \<lparr>Count = 1, ResetAt = t + window\<rparr>))"
  by (simp add: LimitByIP_def Let_def)

subsection \<open>Admission gate\<close>

lemma originAllowed_iff:
  "originAllowed origin allowed \<longleftrightarrow> origin \<in> set allowed \<or> ''*'' \<in> set allowed"
  by (induction allowed) auto

lemma HasPrefix_nonempty: "HasPrefix k ''vrty_'' \<Longrightarrow> k \<noteq> []"
  by (auto simp: HasPrefix_def)

lemma APIKeyMiddleware_registered:
  assumes "APIKeys (config (srv w)) (apiKeyParam r) = Some allowed"
    and "HasPrefix (apiKeyParam r) ''vrty_''"
  shows "APIKeyMiddleware next e now ctx r w =
     (if Origin r \<noteq> [] \<and> (Origin r \<in> set allowed \<or> ''*'' \<in> set allowed)
      then next e now (Some (apiKeyParam r)) r w
      else (Responded (writeErrorResponse ''Invalid origin'' StatusForbidden), [], w))"
  using assms HasPrefix_nonempty [OF assms(2)]
  by (simp add: APIKeyMiddleware_def Let_def originAllowed_iff)

text \<open>
  Claim C6. For a request bearing a registered credential (one with the \<^verbatim>\<open>vrty_\<close>
  prefix): when the credential's origin list holds no wildcard, the request is passed on
  to the handler if and only if its \<^verbatim>\<open>Origin\<close> header is present and equal to one of
  the registered origins, and is answered with status 403 otherwise; a request with no
  \<^verbatim>\<open>Origin\<close> header is always answered with 403; a wildcard in the list admits every
  present origin.
\<close>

theorem origin_admission:
  assumes "APIKeys (config (srv w)) (apiKeyParam r) = Some allowed"
    and "HasPrefix (apiKeyParam r) ''vrty_''"
  shows "(''*'' \<notin> set allowed \<longrightarrow>
            APIKeyMiddleware next e now ctx r w =
              (if Origin r \<noteq> [] \<and> Origin r \<in> set allowed
               then next e now (Some (apiKeyParam r)) r w
               else (Responded \<lparr>status = 403,
                       respBody = JSONResponse \<lparr>Code = 400, Message = ''Invalid origin''\<rparr>\<rparr>, [], w)))
       \<and> (Origin r = [] \<longrightarrow>
            APIKeyMiddleware next e now ctx r w =
              (Responded \<lparr>status = 403,
                 respBody = JSONResponse \<lparr>Code = 400, Message = ''Invalid origin''\<rparr>\<rparr>, [], w))
       \<and> (''*'' \<in> set allowed \<and> Origin r \<noteq> [] \<longrightarrow>
            APIKeyMiddleware next e now ctx r w = next e now (Some (apiKeyParam r)) r w)"
  using APIKeyMiddleware_registered [OF assms, of "next" e now ctx]
  by (simp add: writeErrorResponse_def StatusForbidden_def)

theorem origin_admission_witness:
  "APIKeyMiddleware handleRoot sampleEnv 0 None sampleRequest sampleWorld =
     handleRoot sampleEnv 0 (Some ''vrty_00112233445566778899aabbccddeeff'') sampleRequest sampleWorld
   \<and> APIKeyMiddleware handleRoot sampleEnv 0 None (sampleRequest\<lparr>Origin := ''https://evil.example''\<rparr>)
       sampleWorld =
     (Responded \<lparr>status = 403,
        respBody = JSONResponse \<lparr>Code = 400, Message = ''Invalid origin''\<rparr>\<rparr>, [], sampleWorld)
   \<and> APIKeyMiddleware handleRoot sampleEnv 0 None (sampleRequest\<lparr>Origin := []\<rparr>) sampleWorld =
     (Responded \<lparr>status = 403,
        respBody = JSONResponse \<lparr>Code = 400, Message = ''Invalid origin''\<rparr>\<rparr>, [], sampleWorld)
   \<and> APIKeyMiddleware handleRoot sampleEnv 0 None (sampleRequest\<lparr>Origin := ''https://any.example''\<rparr>)
       (sampleWorld\<lparr>srv := (srv sampleWorld)\<lparr>config := sampleConfig
           \<lparr>APIKeys := [''vrty_00112233445566778899aabbccddeeff'' \<mapsto> [''*'']]\<rparr>\<rparr>\<rparr>) =
     handleRoot sampleEnv 0 (Some ''vrty_00112233445566778899aabbccddeeff'')
       (sampleRequest\<lparr>Origin := ''https://any.example''\<rparr>)
       (sampleWorld\<lparr>srv := (srv sampleWorld)\<lparr>config := sampleConfig
           \<lparr>APIKeys := [''vrty_00112233445566778899aabbccddeeff'' \<mapsto> [''*'']]\<rparr>\<rparr>\<rparr>)"
proof -
  have k: "APIKeys (config (srv sampleWorld)) ''vrty_00112233445566778899aabbccddeeff'' =
             Some [''https://example.org'']"
    by (simp add: sampleWorld_def NewServer_def sampleConfig_def)
  have p: "HasPrefix ''vrty_00112233445566778899aabbccddeeff'' ''vrty_''"
    by (simp add: HasPrefix_def)
  have a: "apiKeyParam sampleRequest = ''vrty_00112233445566778899aabbccddeeff''"
        "Origin sampleRequest = ''https://example.org''"
    by (simp_all add: sampleRequest_def)
  show ?thesis
    using origin_admission [of sampleWorld sampleRequest "[''https://example.org'']" handleRoot sampleEnv 0 None]
      origin_admission [of sampleWorld "sampleRequest\<lparr>Origin := ''https://evil.example''\<rparr>"
         "[''https://example.org'']" handleRoot sampleEnv 0 None]
      origin_admission [of sampleWorld "sampleRequest\<lparr>Origin := []\<rparr>"
         "[''https://example.org'']" handleRoot sampleEnv 0 None]
      origin_admission [of "sampleWorld\<lparr>srv := (srv sampleWorld)\<lparr>config := sampleConfig
           \<lparr>APIKeys := [''vrty_00112233445566778899aabbccddeeff'' \<mapsto> [''*'']]\<rparr>\<rparr>\<rparr>"
         "sampleRequest\<lparr>Origin := ''https://any.example''\<rparr>" "[''*'']" handleRoot sampleEnv 0 None]
      k p a
    by simp
qed

subsection \<open>What the handlers change\<close>

lemma handleVerify_wellformed:
  assumes "Body r = Some b" and "solutionOf e (TrimSpace e b) = Some (cid, ex)"
  shows "handleVerifyChallenge e now (Some k) r w =
    (if Exists cid (cm w)
     then (Responded (writeErrorResponse ''Challenge already solved'' StatusConflict), [], w)
     else (case VerifySolution e (TrimSpace e b) (HMACKey (config (srv w))) True now of
             Inl err \<Rightarrow>
               (Responded (writeErrorResponse (''Verification error: '' @ err) StatusInternalServerError),
                [Verified (TrimSpace e b) (Inl err)], w)
           | Inr verified \<Rightarrow>
               if verified then
                 (Responded \<lparr>status = StatusOK,
                    respBody = JSONResponse \<lparr>Code = StatusOK, Message = ''OK''\<rparr>\<rparr>,
                  [Verified (TrimSpace e b) (Inr True)],
                  w\<lparr>srv := (srv w)\<lparr>config := (config (srv w))
                        \<lparr>Stats := (Stats (config (srv w)))(k \<mapsto> (statsOf (Stats (config (srv w))) k)
                            \<lparr>SolvedChallenges := wrap64 (SolvedChallenges (statsOf (Stats (config (srv w))) k) + 1)\<rparr>)\<rparr>\<rparr>,
                    cm := AddChallenge cid ex (cm w)\<rparr>)
               else
                 (Responded \<lparr>status = StatusOK,
                    respBody = JSONResponse \<lparr>Code = StatusBadRequest, Message = ''Invalid payload''\<rparr>\<rparr>,
                  [Verified (TrimSpace e b) (Inr False)],
                  w\<lparr>srv := (srv w)\<lparr>config := (config (srv w))
                        \<lparr>Stats := (Stats (config (srv w)))(k \<mapsto> (statsOf (Stats (config (srv w))) k)
                            \<lparr>FailedChallenges := wrap64 (FailedChallenges (statsOf (Stats (config (srv w))) k) + 1)\<rparr>)\<rparr>\<rparr>\<rparr>)))"
  using assms
  by (auto simp: handleVerifyChallenge_def solutionOf_def Let_def
      split: option.splits json.splits list.splits sum.splits if_splits)

lemma handleVerify_malformed:
  assumes "Body r = Some b" and "solutionOf e (TrimSpace e b) = None"
  shows "snd (handleVerifyChallenge e now ctx r w) = ([], w) \<and>
         statusOf (handleVerifyChallenge e now ctx r w) \<noteq> Some 200"
  using assms
  by (auto simp: handleVerifyChallenge_def solutionOf_def Let_def statusOf_def writeErrorResponse_def
        StatusBadRequest_def StatusInternalServerError_def
      split: option.splits json.splits list.splits sum.splits if_splits)

lemma handleVerify_unread:
  "ctx = None \<or> Body r = None \<Longrightarrow>
   snd (handleVerifyChallenge e now ctx r w) = ([], w) \<and>
   statusOf (handleVerifyChallenge e now ctx r w) \<noteq> Some 200"
  by (auto simp: handleVerifyChallenge_def statusOf_def writeErrorResponse_def
        StatusBadRequest_def StatusInternalServerError_def split: option.splits)

text \<open>Every path of the verification handler that does not answer 200 leaves the state alone.\<close>

lemma handleVerify_frame:
  "statusOf (handleVerifyChallenge e now ctx r w) \<noteq> Some 200 \<Longrightarrow>
   worldOf (handleVerifyChallenge e now ctx r w) = w"
proof (cases "ctx = None \<or> Body r = None")
  case True
  then show ?thesis using handleVerify_unread [of ctx r e now w] by (simp add: worldOf_def)
next
  case False
  then obtain k b where kb: "ctx = Some k" "Body r = Some b" by auto
  assume st: "statusOf (handleVerifyChallenge e now ctx r w) \<noteq> Some 200"
  show ?thesis
  proof (cases "solutionOf e (TrimSpace e b)")
    case None
    then show ?thesis using handleVerify_malformed [OF kb(2), of e now ctx w] by (simp add: worldOf_def)
  next
    case (Some sol)
    then obtain cid ex where "solutionOf e (TrimSpace e b) = Some (cid, ex)" by (cases sol) auto
    from handleVerify_wellformed [OF kb(2) this, of now k w] st kb(1)
    show ?thesis
      by (auto simp: worldOf_def statusOf_def StatusOK_def split: if_splits sum.splits)
  qed
qed

text \<open>The verification handler never touches the limiter, and changes only the statistics of the server.\<close>

lemma handleVerify_limiter:
  "limiter (worldOf (handleVerifyChallenge e now ctx r w)) = limiter w \<and>
   ipRequestCount (srv (worldOf (handleVerifyChallenge e now ctx r w))) = ipRequestCount (srv w) \<and>
   ipLastRequest (srv (worldOf (handleVerifyChallenge e now ctx r w))) = ipLastRequest (srv w)"
proof (cases "ctx = None \<or> Body r = None")
  case True
  then show ?thesis using handleVerify_unread [of ctx r e now w] by (simp add: worldOf_def)
next
  case False
  then obtain k b where kb: "ctx = Some k" "Body r = Some b" by auto
  show ?thesis
  proof (cases "solutionOf e (TrimSpace e b)")
    case None
    then show ?thesis using handleVerify_malformed [OF kb(2), of e now ctx w] by (simp add: worldOf_def)
  next
    case (Some sol)
    then obtain cid ex where "solutionOf e (TrimSpace e b) = Some (cid, ex)" by (cases sol) auto
    from handleVerify_wellformed [OF kb(2) this, of now k w] kb(1)
    show ?thesis
      by (auto simp: worldOf_def split: if_splits sum.splits)
  qed
qed

lemma getAdjustedComplexity_state:
  "\<exists>n. snd (getAdjustedComplexity ip now s) =
     s\<lparr>ipRequestCount := (ipRequestCount s)(ip \<mapsto> n), ipLastRequest := (ipLastRequest s)(ip \<mapsto> now)\<rparr>"
  unfolding getAdjustedComplexity_def Let_def split_beta
  by (simp only: if_distrib [of snd] snd_conv if_cancel) blast

lemma getAdjustedComplexity_config:
  "config (snd (getAdjustedComplexity ip now s)) = config s"
  using getAdjustedComplexity_state [of ip now s] by (auto simp del: fun_upd_apply)

lemma handleGet_frame:
  "cm (worldOf (handleGetChallenge e now ctx r w)) = cm w \<and>
   limiter (worldOf (handleGetChallenge e now ctx r w)) = limiter w \<and>
   (statusOf (handleGetChallenge e now ctx r w) \<noteq> Some 200 \<longrightarrow>
      config (srv (worldOf (handleGetChallenge e now ctx r w))) = config (srv w))"
  by (simp add: handleGetChallenge_def worldOf_def statusOf_def Let_def
        StatusOK_def split_beta getAdjustedComplexity_config
      split: option.splits sum.splits)

lemma handleRoot_frame: "worldOf (handleRoot e now ctx r w) = w"
  by (simp add: handleRoot_def worldOf_def)

lemma APIKeyMiddleware_cases:
  "APIKeyMiddleware next e now ctx r w = next e now (Some (apiKeyParam r)) r w \<or>
   (\<exists>msg. APIKeyMiddleware next e now ctx r w =
      (Responded (writeErrorResponse msg StatusUnauthorized), [], w)) \<or>
   APIKeyMiddleware next e now ctx r w =
      (Responded (writeErrorResponse ''Invalid origin'' StatusForbidden), [], w)"
  by (auto simp: APIKeyMiddleware_def Let_def split: option.splits)

lemma RateLimitMiddleware_cases:
  "RateLimitMiddleware next e now ctx r w =
     (let lim = LimitByIP (GetRealIP e r) MaxRequestsPerIP RequestLimitWindow now (ipLimits (limiter w));
          w1 = w\<lparr>limiter := (limiter w)\<lparr>ipLimits := snd lim\<rparr>\<rparr>
      in if fst lim then next e now ctx r w1
         else (Responded (writeErrorResponse ''Rate limit exceeded'' StatusTooManyRequests), [], w1))"
  by (simp add: RateLimitMiddleware_def Let_def split_beta)

lemma routes_stats_frame:
  "statusOf (routes e now ctx r w) \<noteq> Some 200 \<Longrightarrow>
   Stats (config (srv (worldOf (routes e now ctx r w)))) = Stats (config (srv w))"
proof (cases "reqRoute r")
  case Root
  then show ?thesis by (simp add: routes_def handleRoot_frame)
next
  case GetChallengeRoute
  assume st: "statusOf (routes e now ctx r w) \<noteq> Some 200"
  from APIKeyMiddleware_cases [of handleGetChallenge e now ctx r w] st GetChallengeRoute
  show ?thesis
    using handleGet_frame [of e now "Some (apiKeyParam r)" r w]
    by (auto simp: routes_def worldOf_def)
next
  case VerifyChallengeRoute
  assume st: "statusOf (routes e now ctx r w) \<noteq> Some 200"
  from APIKeyMiddleware_cases [of handleVerifyChallenge e now ctx r w] st VerifyChallengeRoute
  show ?thesis
    using handleVerify_frame [of e now "Some (apiKeyParam r)" r w]
    by (auto simp: routes_def worldOf_def)
next
  case NoRoute
  then show ?thesis by (simp add: routes_def worldOf_def)
qed

text \<open>
  Claim C1, as amended. No statistics counter changes on a path that answers with an
  error: whenever a request is answered with a status other than 200 (400 for a malformed
  payload, 401 and 403 from the admission gate, 429 from the rate limiter, 409 for a
  replay, 500 for an internal error) or the handler panics, the statistics of every API
  key are what they were before the request.
\<close>

theorem stats_untouched_on_errors:
  "statusOf (serveHTTP e now r w) \<noteq> Some 200 \<Longrightarrow>
   Stats (config (srv (worldOf (serveHTTP e now r w)))) = Stats (config (srv w))"
proof -
  assume st: "statusOf (serveHTTP e now r w) \<noteq> Some 200"
  let ?lim = "LimitByIP (GetRealIP e r) MaxRequestsPerIP RequestLimitWindow now (ipLimits (limiter w))"
  let ?w1 = "w\<lparr>limiter := (limiter w)\<lparr>ipLimits := snd ?lim\<rparr>\<rparr>"
  show ?thesis
  proof (cases "fst ?lim")
    case True
    then have eq: "serveHTTP e now r w = routes e now None r ?w1"
      by (simp add: serveHTTP_def RateLimitMiddleware_cases Let_def)
    from routes_stats_frame [of e now None r ?w1] st eq show ?thesis by simp
  next
    case False
    then show ?thesis
      by (simp add: serveHTTP_def RateLimitMiddleware_cases Let_def worldOf_def)
  qed
qed

lemma sample_evals:
  "GetRealIP sampleEnv sampleRequest = ''203.0.113.9''"
  "GetRealIP sampleEnv wrongSolutionRequest = ''203.0.113.9''"
  "GetRealIP sampleEnv keylessRequest = ''203.0.113.9''"
  by (simp_all add: GetRealIP_def sampleEnv_def sampleRequest_def wrongSolutionRequest_def
      keylessRequest_def)

lemma keyless_401:
  "serveHTTP sampleEnv 0 keylessRequest sampleWorld =
     (Responded \<lparr>status = 401, respBody = JSONResponse \<lparr>Code = 400, Message = ''Missing API key''\<rparr>\<rparr>,
      [],
      sampleWorld\<lparr>limiter := \<lparr>ipLimits = [''203.0.113.9'' \<mapsto> \<lparr>Count = 1, ResetAt = RequestLimitWindow\<rparr>]\<rparr>\<rparr>)"
proof -
  have r: "reqRoute keylessRequest = VerifyChallengeRoute" "apiKeyParam keylessRequest = []"
    by (simp_all add: keylessRequest_def sampleRequest_def)
  show ?thesis
    by (simp add: serveHTTP_def RateLimitMiddleware_def routes_def APIKeyMiddleware_def sample_evals
        LimitByIP_def sampleWorld_def NewRateLimiter_def MaxRequestsPerIP_def Let_def r
        writeErrorResponse_def StatusUnauthorized_def)
qed

theorem stats_untouched_on_errors_witness:
  "statusOf (serveHTTP sampleEnv 0 keylessRequest sampleWorld) = Some 401
   \<and> Stats (config (srv (worldOf (serveHTTP sampleEnv 0 keylessRequest sampleWorld)))) =
       Stats (config (srv sampleWorld))"
  using stats_untouched_on_errors [of sampleEnv 0 keylessRequest sampleWorld]
  by (simp add: keyless_401 statusOf_def)

text \<open>
  The inequality of claim C1 fails in a reachable state: started with no statistics, the
  server receives one verification request whose solution the proof-of-work library
  rejects. The failed counter of the key becomes 1 while its issued counter is 0.
\<close>

theorem stats_invariant_counterexample:
  "boot sampleEnv sampleConfig = Some sampleWorld
   \<and> TotalChallenges (statsOf (Stats (config (srv afterWrongSolution))) sampleKey) = 0
   \<and> SolvedChallenges (statsOf (Stats (config (srv afterWrongSolution))) sampleKey) = 0
   \<and> FailedChallenges (statsOf (Stats (config (srv afterWrongSolution))) sampleKey) = 1
   \<and> \<not> (TotalChallenges (statsOf (Stats (config (srv afterWrongSolution))) sampleKey)
          \<ge> SolvedChallenges (statsOf (Stats (config (srv afterWrongSolution))) sampleKey)
            + FailedChallenges (statsOf (Stats (config (srv afterWrongSolution))) sampleKey))"
  by (simp add: boot_def sampleEnv_def sampleConfig_def sampleWorld_def sampleRequest_def
      afterWrongSolution_def wrongSolutionRequest_def sampleKey_def
      serveHTTP_def RateLimitMiddleware_def routes_def APIKeyMiddleware_def
      handleVerifyChallenge_def GetRealIP_def LimitByIP_def HasPrefix_def Exists_def
      NewServer_def NewRateLimiter_def NewChallengeManager_def statsOf_def zeroStats_def
      MaxRequestsPerIP_def RequestLimitWindow_def Minute_def wrap64_def
      StatusOK_def StatusBadRequest_def
      goodBody_def badBody_def goodJSON_def badJSON_def saltlessBody_def saltlessJSON_def Let_def)

subsection \<open>Rejected credentials\<close>

lemma APIKeyMiddleware_rejects:
  assumes "apiKeyParam r = [] \<or> \<not> HasPrefix (apiKeyParam r) ''vrty_'' \<or>
           APIKeys (config (srv w)) (apiKeyParam r) = None"
  shows "\<exists>msg. APIKeyMiddleware next e now ctx r w =
           (Responded (writeErrorResponse msg StatusUnauthorized), [], w)"
  using assms by (auto simp: APIKeyMiddleware_def Let_def)

text \<open>
  Claim C10, as amended. A request to one of the two challenge routes that the rate
  limiter admits and that presents a missing, malformed or unregistered credential is
  answered with status 401; the proof-of-work library is not called; the server (the
  statistics of every credential and the per-address counters of the complexity
  controller) and the replay guard are unchanged. The rate limiter, which runs before the
  credential check, has counted the request: its table is what \<open>LimitByIP\<close> returned.
\<close>

theorem rejected_credential_frame:
  assumes route: "reqRoute r = GetChallengeRoute \<or> reqRoute r = VerifyChallengeRoute"
    and cred: "apiKeyParam r = [] \<or> \<not> HasPrefix (apiKeyParam r) ''vrty_'' \<or>
           APIKeys (config (srv w)) (apiKeyParam r) = None"
    and admitted: "fst (LimitByIP (GetRealIP e r) MaxRequestsPerIP RequestLimitWindow now
                     (ipLimits (limiter w)))"
  shows "statusOf (serveHTTP e now r w) = Some 401
       \<and> callsOf (serveHTTP e now r w) = []
       \<and> srv (worldOf (serveHTTP e now r w)) = srv w
       \<and> cm (worldOf (serveHTTP e now r w)) = cm w
       \<and> ipLimits (limiter (worldOf (serveHTTP e now r w))) =
           snd (LimitByIP (GetRealIP e r) MaxRequestsPerIP RequestLimitWindow now
                  (ipLimits (limiter w)))"
proof -
  let ?lim = "LimitByIP (GetRealIP e r) MaxRequestsPerIP RequestLimitWindow now (ipLimits (limiter w))"
  let ?w1 = "w\<lparr>limiter := (limiter w)\<lparr>ipLimits := snd ?lim\<rparr>\<rparr>"
  have eq: "serveHTTP e now r w = routes e now None r ?w1"
    using admitted by (simp add: serveHTTP_def RateLimitMiddleware_cases Let_def)
  have cred1: "apiKeyParam r = [] \<or> \<not> HasPrefix (apiKeyParam r) ''vrty_'' \<or>
           APIKeys (config (srv ?w1)) (apiKeyParam r) = None"
    using cred by simp
  obtain msg where
    "routes e now None r ?w1 = (Responded (writeErrorResponse msg StatusUnauthorized), [], ?w1)"
    using route APIKeyMiddleware_rejects [OF cred1, of handleGetChallenge e now None]
      APIKeyMiddleware_rejects [OF cred1, of handleVerifyChallenge e now None]
    by (auto simp: routes_def)
  then show ?thesis
    using eq by (simp add: statusOf_def callsOf_def worldOf_def writeErrorResponse_def
        StatusUnauthorized_def)
qed

theorem rejected_credential_frame_witness:
  "statusOf (serveHTTP sampleEnv 0 keylessRequest sampleWorld) = Some 401
   \<and> callsOf (serveHTTP sampleEnv 0 keylessRequest sampleWorld) = []
   \<and> srv (worldOf (serveHTTP sampleEnv 0 keylessRequest sampleWorld)) = srv sampleWorld
   \<and> cm (worldOf (serveHTTP sampleEnv 0 keylessRequest sampleWorld)) = cm sampleWorld
   \<and> ipLimits (limiter (worldOf (serveHTTP sampleEnv 0 keylessRequest sampleWorld))) ''203.0.113.9'' =
       Some \<lparr>Count = 1, ResetAt = RequestLimitWindow\<rparr>"
proof -
  have r: "reqRoute keylessRequest = VerifyChallengeRoute" "apiKeyParam keylessRequest = []"
    by (simp_all add: keylessRequest_def sampleRequest_def)
  have l: "LimitByIP ''203.0.113.9'' MaxRequestsPerIP RequestLimitWindow 0 (ipLimits (limiter sampleWorld))
     = (True, [''203.0.113.9'' \<mapsto> \<lparr>Count = 1, ResetAt = RequestLimitWindow\<rparr>])"
    by (simp add: LimitByIP_def sampleWorld_def NewRateLimiter_def MaxRequestsPerIP_def Let_def)
  show ?thesis
    using rejected_credential_frame [of keylessRequest sampleWorld sampleEnv 0] r l
    by (simp add: sample_evals)
qed

text \<open>
  Claim C10 as stated fails: a request without a key, from an address the server has never
  seen, is answered with 401 and leaves the rate limiter's counter of that address at 1.
\<close>

theorem rejected_credential_counterexample:
  "apiKeyParam keylessRequest = []
   \<and> statusOf (serveHTTP sampleEnv 0 keylessRequest sampleWorld) = Some 401
   \<and> ipLimits (limiter sampleWorld) ''203.0.113.9'' = None
   \<and> ipLimits (limiter (worldOf (serveHTTP sampleEnv 0 keylessRequest sampleWorld))) ''203.0.113.9'' =
       Some \<lparr>Count = 1, ResetAt = RequestLimitWindow\<rparr>
   \<and> worldOf (serveHTTP sampleEnv 0 keylessRequest sampleWorld) \<noteq> sampleWorld"
proof -
  have a: "ipLimits (limiter sampleWorld) ''203.0.113.9'' = None"
    by (simp add: sampleWorld_def NewRateLimiter_def)
  have b: "ipLimits (limiter (worldOf (serveHTTP sampleEnv 0 keylessRequest sampleWorld))) ''203.0.113.9'' =
       Some \<lparr>Count = 1, ResetAt = RequestLimitWindow\<rparr>"
    by (simp add: keyless_401 worldOf_def)
  from a b have "worldOf (serveHTTP sampleEnv 0 keylessRequest sampleWorld) \<noteq> sampleWorld"
    by (metis option.distinct(1))
  moreover have "apiKeyParam keylessRequest = []"
    by (simp add: keylessRequest_def sampleRequest_def)
  moreover have "statusOf (serveHTTP sampleEnv 0 keylessRequest sampleWorld) = Some 401"
    by (simp add: keyless_401 statusOf_def)
  ultimately show ?thesis using a b by simp
qed

subsection \<open>Replay guard: what enters the set\<close>

lemma handleVerify_cm:
  assumes "solvedChallenges (cm (worldOf (handleVerifyChallenge e now ctx r w))) cid = Some v"
  shows "solvedChallenges (cm w) cid = Some v \<or>
         (\<exists>p. Verified p (Inr True) \<in> set (callsOf (handleVerifyChallenge e now ctx r w)) \<and>
              solutionOf e p = Some (cid, v))"
proof (cases "ctx = None \<or> Body r = None")
  case True
  then show ?thesis using assms handleVerify_unread [of ctx r e now w] by (simp add: worldOf_def)
next
  case False
  then obtain k b where kb: "ctx = Some k" "Body r = Some b" by auto
  show ?thesis
  proof (cases "solutionOf e (TrimSpace e b)")
    case None
    then show ?thesis
      using assms handleVerify_malformed [OF kb(2), of e now ctx w] by (simp add: worldOf_def)
  next
    case (Some sol)
    then obtain cid' ex where sol: "solutionOf e (TrimSpace e b) = Some (cid', ex)"
      by (cases sol) auto
    from handleVerify_wellformed [OF kb(2) sol, of now k w] assms kb(1) sol
    show ?thesis
      by (auto simp: worldOf_def callsOf_def AddChallenge_def split: if_splits sum.splits)
  qed
qed

lemma handleVerify_cm_frame:
  assumes "fst (handleVerifyChallenge e now ctx r w) \<noteq>
             Responded \<lparr>status = 200, respBody = JSONResponse \<lparr>Code = 200, Message = ''OK''\<rparr>\<rparr>"
  shows "cm (worldOf (handleVerifyChallenge e now ctx r w)) = cm w"
proof (cases "ctx = None \<or> Body r = None")
  case True
  then show ?thesis using handleVerify_unread [of ctx r e now w] by (simp add: worldOf_def)
next
  case False
  then obtain k b where kb: "ctx = Some k" "Body r = Some b" by auto
  show ?thesis
  proof (cases "solutionOf e (TrimSpace e b)")
    case None
    then show ?thesis
      using handleVerify_malformed [OF kb(2), of e now ctx w] by (simp add: worldOf_def)
  next
    case (Some sol)
    then obtain cid' ex where sol: "solutionOf e (TrimSpace e b) = Some (cid', ex)"
      by (cases sol) auto
    from handleVerify_wellformed [OF kb(2) sol, of now k w] assms kb(1)
    show ?thesis
      by (auto simp: worldOf_def StatusOK_def split: if_splits sum.splits)
  qed
qed

lemma routes_cm:
  assumes "solvedChallenges (cm (worldOf (routes e now ctx r w))) cid = Some v"
  shows "solvedChallenges (cm w) cid = Some v \<or>
         (\<exists>p. Verified p (Inr True) \<in> set (callsOf (routes e now ctx r w)) \<and>
              solutionOf e p = Some (cid, v))"
proof (cases "reqRoute r")
  case Root
  then show ?thesis using assms by (simp add: routes_def handleRoot_frame)
next
  case GetChallengeRoute
  from APIKeyMiddleware_cases [of handleGetChallenge e now ctx r w] assms GetChallengeRoute
  show ?thesis
    using handleGet_frame [of e now "Some (apiKeyParam r)" r w]
    by (auto simp: routes_def worldOf_def)
next
  case VerifyChallengeRoute
  from APIKeyMiddleware_cases [of handleVerifyChallenge e now ctx r w] assms VerifyChallengeRoute
  show ?thesis
    using handleVerify_cm [of e now "Some (apiKeyParam r)" r w cid v]
    by (auto simp: routes_def worldOf_def)
next
  case NoRoute
  then show ?thesis using assms by (simp add: routes_def worldOf_def)
qed

lemma routes_cm_frame:
  assumes "fst (routes e now ctx r w) \<noteq>
             Responded \<lparr>status = 200, respBody = JSONResponse \<lparr>Code = 200, Message = ''OK''\<rparr>\<rparr>"
  shows "cm (worldOf (routes e now ctx r w)) = cm w"
proof (cases "reqRoute r")
  case Root
  then show ?thesis by (simp add: routes_def handleRoot_frame)
next
  case GetChallengeRoute
  from APIKeyMiddleware_cases [of handleGetChallenge e now ctx r w] GetChallengeRoute
  show ?thesis
    using handleGet_frame [of e now "Some (apiKeyParam r)" r w]
    by (auto simp: routes_def worldOf_def)
next
  case VerifyChallengeRoute
  from APIKeyMiddleware_cases [of handleVerifyChallenge e now ctx r w] assms VerifyChallengeRoute
  show ?thesis
    using handleVerify_cm_frame [of e now "Some (apiKeyParam r)" r w]
    by (auto simp: routes_def worldOf_def)
next
  case NoRoute
  then show ?thesis by (simp add: routes_def worldOf_def)
qed

lemma serveHTTP_routes:
  "serveHTTP e now r w =
     (let lim = LimitByIP (GetRealIP e r) MaxRequestsPerIP RequestLimitWindow now (ipLimits (limiter w));
          w1 = w\<lparr>limiter := (limiter w)\<lparr>ipLimits := snd lim\<rparr>\<rparr>
      in if fst lim then routes e now None r w1
         else (Responded (writeErrorResponse ''Rate limit exceeded'' StatusTooManyRequests), [], w1))"
  by (simp add: serveHTTP_def RateLimitMiddleware_cases)

lemma serveHTTP_cm:
  assumes "solvedChallenges (cm (worldOf (serveHTTP e now r w))) cid = Some v"
  shows "solvedChallenges (cm w) cid = Some v \<or>
         (\<exists>p. Verified p (Inr True) \<in> set (callsOf (serveHTTP e now r w)) \<and>
              solutionOf e p = Some (cid, v))"
proof -
  let ?lim = "LimitByIP (GetRealIP e r) MaxRequestsPerIP RequestLimitWindow now (ipLimits (limiter w))"
  let ?w1 = "w\<lparr>limiter := (limiter w)\<lparr>ipLimits := snd ?lim\<rparr>\<rparr>"
  show ?thesis
  proof (cases "fst ?lim")
    case True
    then have eq: "serveHTTP e now r w = routes e now None r ?w1"
      by (simp add: serveHTTP_routes Let_def)
    from routes_cm [of e now None r ?w1 cid v] assms eq show ?thesis by simp
  next
    case False
    then show ?thesis using assms
      by (simp add: serveHTTP_routes Let_def worldOf_def)
  qed
qed

lemma serveHTTP_cm_frame:
  assumes "fst (serveHTTP e now r w) \<noteq>
             Responded \<lparr>status = 200, respBody = JSONResponse \<lparr>Code = 200, Message = ''OK''\<rparr>\<rparr>"
  shows "cm (worldOf (serveHTTP e now r w)) = cm w"
proof -
  let ?lim = "LimitByIP (GetRealIP e r) MaxRequestsPerIP RequestLimitWindow now (ipLimits (limiter w))"
  let ?w1 = "w\<lparr>limiter := (limiter w)\<lparr>ipLimits := snd ?lim\<rparr>\<rparr>"
  show ?thesis
  proof (cases "fst ?lim")
    case True
    then have eq: "serveHTTP e now r w = routes e now None r ?w1"
      by (simp add: serveHTTP_routes Let_def)
    from routes_cm_frame [of e now None r ?w1] assms eq show ?thesis by simp
  next
    case False
    then show ?thesis
      by (simp add: serveHTTP_routes Let_def worldOf_def)
  qed
qed

lemma cleanupExpired_sub:
  "solvedChallenges (cleanupExpired now m) cid = Some v \<Longrightarrow> solvedChallenges m cid = Some v"
  by (auto simp: cleanupExpired_def Let_def split: option.splits if_splits)

lemma run_cm:
  "solvedChallenges (cm (snd (run e evs w))) cid = Some v \<Longrightarrow>
   solvedChallenges (cm w) cid = Some v \<or>
   (\<exists>p. Verified p (Inr True) \<in> set (fst (run e evs w)) \<and> solutionOf e p = Some (cid, v))"
proof (induction evs arbitrary: w)
  case Nil
  then show ?case by simp
next
  case (Cons ev evs)
  show ?case
  proof (cases ev)
    case (Serve now r)
    let ?h = "serveHTTP e now r w"
    have run_eq: "run e (ev # evs) w =
        (callsOf ?h @ fst (run e evs (worldOf ?h)), snd (run e evs (worldOf ?h)))"
      using Serve by (simp add: split_beta callsOf_def worldOf_def)
    from Cons.prems run_eq
    have "solvedChallenges (cm (snd (run e evs (worldOf ?h)))) cid = Some v" by simp
    from Cons.IH [OF this] show ?thesis
    proof
      assume "solvedChallenges (cm (worldOf ?h)) cid = Some v"
      from serveHTTP_cm [OF this] show ?thesis using run_eq by auto
    next
      assume "\<exists>p. Verified p (Inr True) \<in> set (fst (run e evs (worldOf ?h))) \<and>
                  solutionOf e p = Some (cid, v)"
      then show ?thesis using run_eq by auto
    qed
  next
    case (Tick now)
    with Cons.prems
    have "solvedChallenges (cm (snd (run e evs (w\<lparr>cm := cleanupExpired now (cm w)\<rparr>)))) cid = Some v"
      by simp
    from Cons.IH [OF this] show ?thesis
      using Tick by (auto dest: cleanupExpired_sub)
  qed
qed

text \<open>
  Claim C4. In every state the process reaches from its start, an identifier held by the
  replay guard, with the expiry stored for it, is the identifier and expiry of a payload
  that the proof-of-work library was asked to verify earlier and reported valid. And a
  request answered with anything but the success response (a malformed payload, a replay
  rejection, a library error, a failed verification, or a rejection before the handler)
  leaves the replay guard as it was.
\<close>

theorem replay_guard_only_verified:
  assumes "boot e c = Some w0"
  shows "(solvedChallenges (cm (snd (run e evs w0))) cid = Some v \<longrightarrow>
            (\<exists>p. Verified p (Inr True) \<in> set (fst (run e evs w0)) \<and> solutionOf e p = Some (cid, v)))
       \<and> (fst (serveHTTP e now r w) \<noteq>
            Responded \<lparr>status = 200, respBody = JSONResponse \<lparr>Code = 200, Message = ''OK''\<rparr>\<rparr> \<longrightarrow>
          cm (worldOf (serveHTTP e now r w)) = cm w)"
proof -
  have "solvedChallenges (cm w0) cid = None"
    using assms by (auto simp: boot_def NewChallengeManager_def split: option.splits)
  then show ?thesis
    using run_cm [of e evs w0 cid v] serveHTTP_cm_frame [of e now r w] by auto
qed

lemma sample_boot: "boot sampleEnv sampleConfig = Some sampleWorld"
  by (simp add: boot_def sampleEnv_def sampleConfig_def sampleWorld_def)

lemma sample_solution: "solutionOf sampleEnv goodBody = Some (''c1'', 1793000300)"
  by (simp add: solutionOf_def sampleEnv_def goodBody_def badBody_def goodJSON_def badJSON_def
      saltlessBody_def saltlessJSON_def)

lemma sample_accepted:
  "fst (serveHTTP sampleEnv 0 sampleRequest sampleWorld) =
     Responded \<lparr>status = 200, respBody = JSONResponse \<lparr>Code = 200, Message = ''OK''\<rparr>\<rparr>
   \<and> callsOf (serveHTTP sampleEnv 0 sampleRequest sampleWorld) = [Verified goodBody (Inr True)]
   \<and> solvedChallenges (cm (worldOf (serveHTTP sampleEnv 0 sampleRequest sampleWorld))) =
       [''c1'' \<mapsto> 1793000300]"
proof -
  have r: "reqRoute sampleRequest = VerifyChallengeRoute" "apiKeyParam sampleRequest = sampleKey"
    "Origin sampleRequest = ''https://example.org''" "Body sampleRequest = Some goodBody"
    by (simp_all add: sampleRequest_def sampleKey_def)
  have k: "HasPrefix sampleKey ''vrty_''"
    "APIKeys (config (srv sampleWorld)) sampleKey = Some [''https://example.org'']"
    "sampleKey \<noteq> []"
    by (simp_all add: HasPrefix_def sampleKey_def sampleWorld_def NewServer_def sampleConfig_def)
  have l: "LimitByIP ''203.0.113.9'' MaxRequestsPerIP RequestLimitWindow 0 (ipLimits (limiter sampleWorld))
     = (True, [''203.0.113.9'' \<mapsto> \<lparr>Count = 1, ResetAt = RequestLimitWindow\<rparr>])"
    by (simp add: LimitByIP_def sampleWorld_def NewRateLimiter_def MaxRequestsPerIP_def Let_def)
  have t: "TrimSpace sampleEnv goodBody = goodBody"
    "VerifySolution sampleEnv goodBody key True now = Inr True" for key now
    by (simp_all add: sampleEnv_def)
  have c: "cm sampleWorld = NewChallengeManager (5 * Minute)"
    by (simp add: sampleWorld_def)
  let ?w1 = "sampleWorld\<lparr>limiter := (limiter sampleWorld)
      \<lparr>ipLimits := [''203.0.113.9'' \<mapsto> \<lparr>Count = 1, ResetAt = RequestLimitWindow\<rparr>]\<rparr>\<rparr>"
  have s: "serveHTTP sampleEnv 0 sampleRequest sampleWorld =
      handleVerifyChallenge sampleEnv 0 (Some sampleKey) sampleRequest ?w1"
    by (simp add: serveHTTP_routes sample_evals l routes_def r
        APIKeyMiddleware_registered [where allowed = "[''https://example.org'']"] k)
  have sol: "solutionOf sampleEnv (TrimSpace sampleEnv goodBody) = Some (''c1'', 1793000300)"
    by (simp add: t sample_solution)
  show ?thesis
    unfolding s handleVerify_wellformed [OF r(4) sol]
    by (simp add: t c Exists_def NewChallengeManager_def AddChallenge_def callsOf_def worldOf_def
        StatusOK_def)
qed

theorem replay_guard_only_verified_witness:
  "boot sampleEnv sampleConfig = Some sampleWorld
   \<and> solvedChallenges (cm (snd (run sampleEnv [Serve 0 sampleRequest] sampleWorld))) ''c1'' =
       Some 1793000300
   \<and> (\<exists>p. Verified p (Inr True) \<in> set (fst (run sampleEnv [Serve 0 sampleRequest] sampleWorld))
          \<and> solutionOf sampleEnv p = Some (''c1'', 1793000300))
   \<and> cm (worldOf (serveHTTP sampleEnv 0 keylessRequest sampleWorld)) = cm sampleWorld"
proof -
  have a: "solvedChallenges (cm (snd (run sampleEnv [Serve 0 sampleRequest] sampleWorld))) ''c1'' =
       Some 1793000300"
    using sample_accepted by (simp add: split_beta worldOf_def)
  have b: "fst (serveHTTP sampleEnv 0 keylessRequest sampleWorld) \<noteq>
            Responded \<lparr>status = 200, respBody = JSONResponse \<lparr>Code = 200, Message = ''OK''\<rparr>\<rparr>"
    by (simp add: keyless_401)
  show ?thesis
    using replay_guard_only_verified [OF sample_boot, of "[Serve 0 sampleRequest]" "''c1''" 1793000300
        0 keylessRequest sampleWorld] a b sample_boot
    by blast
qed

subsection \<open>Replay guard: resubmission\<close>







subsection \<open>Error responses, malformed payloads and the sweep\<close>

lemma writeErrorResponse_code:
  "status (writeErrorResponse msg st) = st \<and>
   respBody (writeErrorResponse msg st) = JSONResponse \<lparr>Code = 400, Message = msg\<rparr>"
  by (simp add: writeErrorResponse_def)

lemma sample_limit:
  "LimitByIP ''203.0.113.9'' MaxRequestsPerIP RequestLimitWindow now (ipLimits (limiter sampleWorld))
     = (True, [''203.0.113.9'' \<mapsto> \<lparr>Count = 1, ResetAt = now + RequestLimitWindow\<rparr>])"
  by (simp add: LimitByIP_def sampleWorld_def NewRateLimiter_def MaxRequestsPerIP_def Let_def)

lemma sample_admitted:
  assumes "reqRoute r = VerifyChallengeRoute" "apiKeyParam r = sampleKey"
    "Origin r = ''https://example.org''" "GetRealIP sampleEnv r = ''203.0.113.9''"
  shows "serveHTTP sampleEnv now r sampleWorld =
      handleVerifyChallenge sampleEnv now (Some sampleKey) r
        (sampleWorld\<lparr>limiter := (limiter sampleWorld)
           \<lparr>ipLimits := [''203.0.113.9'' \<mapsto> \<lparr>Count = 1, ResetAt = now + RequestLimitWindow\<rparr>]\<rparr>\<rparr>)"
proof -
  have k: "HasPrefix sampleKey ''vrty_''"
    "APIKeys (config (srv sampleWorld)) sampleKey = Some [''https://example.org'']"
    by (simp_all add: HasPrefix_def sampleKey_def sampleWorld_def NewServer_def sampleConfig_def)
  show ?thesis
    by (simp add: serveHTTP_routes assms sample_limit routes_def
        APIKeyMiddleware_registered [where allowed = "[''https://example.org'']"] k)
qed

lemma sample_bad_solution: "solutionOf sampleEnv badBody = Some (''c2'', 1793000300)"
  by (simp add: solutionOf_def sampleEnv_def goodBody_def badBody_def goodJSON_def badJSON_def
      saltlessBody_def saltlessJSON_def)

lemma wrong_solution_200:
  "fst (serveHTTP sampleEnv 0 wrongSolutionRequest sampleWorld) =
     Responded \<lparr>status = 200, respBody = JSONResponse \<lparr>Code = 400, Message = ''Invalid payload''\<rparr>\<rparr>"
proof -
  have r: "reqRoute wrongSolutionRequest = VerifyChallengeRoute"
    "apiKeyParam wrongSolutionRequest = sampleKey"
    "Origin wrongSolutionRequest = ''https://example.org''"
    "Body wrongSolutionRequest = Some badBody"
    by (simp_all add: wrongSolutionRequest_def sampleRequest_def sampleKey_def)
  have t: "TrimSpace sampleEnv badBody = badBody"
    "VerifySolution sampleEnv badBody key True now = Inr False" for key now
    by (simp_all add: sampleEnv_def goodBody_def badBody_def)
  have sol: "solutionOf sampleEnv (TrimSpace sampleEnv badBody) = Some (''c2'', 1793000300)"
    by (simp add: t sample_bad_solution)
  show ?thesis
    unfolding sample_admitted [OF r(1,2,3) sample_evals(2)] handleVerify_wellformed [OF r(4) sol]
    by (simp add: t Exists_def sampleWorld_def NewChallengeManager_def StatusOK_def
        StatusBadRequest_def)
qed

text \<open>
  Claim C2 says that every error response carries the status assigned to it and the same
  number in the \<^verbatim>\<open>code\<close> field of its body, and that a failed verification is answered
  with status 400. The code does otherwise on both counts: a request without an API key
  is answered with status 401 and \<^verbatim>\<open>code\<close> 400 (\<open>writeErrorResponse\<close> writes 400 into
  every body), and a solution the proof-of-work library rejects is answered with status
  200 and \<^verbatim>\<open>code\<close> 400 (the handler writes no status on that branch).
\<close>

theorem error_code_mismatch:
  "fst (serveHTTP sampleEnv 0 keylessRequest sampleWorld) =
     Responded \<lparr>status = 401, respBody = JSONResponse \<lparr>Code = 400, Message = ''Missing API key''\<rparr>\<rparr>
   \<and> fst (serveHTTP sampleEnv 0 wrongSolutionRequest sampleWorld) =
     Responded \<lparr>status = 200, respBody = JSONResponse \<lparr>Code = 400, Message = ''Invalid payload''\<rparr>\<rparr>"
  by (simp add: keyless_401 wrong_solution_200)

lemma salt_not_string_panics:
  assumes "Body r = Some b" "DecodeString e (TrimSpace e b) = Some d" "Unmarshal e d = Some p"
    "p ''challenge'' = Some (JString c)" "\<forall>s. p ''salt'' \<noteq> Some (JString s)"
  shows "handleVerifyChallenge e now (Some k) r w = (Panicked, [], w)"
  using assms
  by (auto simp: handleVerifyChallenge_def Let_def split: option.splits json.splits)

text \<open>
  Claim C9 says that the verification handler answers every malformed body with status
  400 and never panics, also when the \<^verbatim>\<open>salt\<close> field is absent or not a string. The
  code panics there: for the body that encodes \<^verbatim>\<open>{"challenge":"c3"}\<close> the unchecked
  type assertion on \<^verbatim>\<open>payload["salt"]\<close> fails and no response is written by the handler.
\<close>

theorem saltless_payload_panics:
  "fst (serveHTTP sampleEnv 0 saltlessRequest sampleWorld) = Panicked"
proof -
  have r: "reqRoute saltlessRequest = VerifyChallengeRoute"
    "apiKeyParam saltlessRequest = sampleKey"
    "Origin saltlessRequest = ''https://example.org''"
    "Body saltlessRequest = Some saltlessBody"
    "GetRealIP sampleEnv saltlessRequest = ''203.0.113.9''"
    by (simp_all add: saltlessRequest_def sampleRequest_def sampleKey_def GetRealIP_def sampleEnv_def)
  have d: "DecodeString sampleEnv (TrimSpace sampleEnv saltlessBody) = Some saltlessJSON"
    by (simp add: sampleEnv_def goodBody_def badBody_def saltlessBody_def)
  have u: "Unmarshal sampleEnv saltlessJSON = Some [''challenge'' \<mapsto> JString ''c3'']"
    by (simp add: sampleEnv_def goodJSON_def badJSON_def saltlessJSON_def)
  show ?thesis
    unfolding sample_admitted [OF r(1,2,3,5)]
    by (subst salt_not_string_panics [OF r(4) d u, of "''c3''"]) simp_all
qed

lemma malformed_payload_outcome:
  assumes "Body r = Some b" "solutionOf e (TrimSpace e b) = None"
  shows "(\<exists>msg. handleVerifyChallenge e now (Some k) r w =
            (Responded (writeErrorResponse msg StatusBadRequest), [], w))
       \<or> (handleVerifyChallenge e now (Some k) r w = (Panicked, [], w)
          \<and> (\<exists>d p c. DecodeString e (TrimSpace e b) = Some d \<and> Unmarshal e d = Some p
                \<and> p ''challenge'' = Some (JString c) \<and> (\<forall>s. p ''salt'' \<noteq> Some (JString s))))"
  using assms
  by (auto simp: handleVerifyChallenge_def solutionOf_def Let_def
      split: option.splits json.splits list.splits if_splits)

lemma cleanupExpired_entry:
  "solvedChallenges (cleanupExpired now m) cid =
     (case solvedChallenges m cid of
        None \<Rightarrow> None
      | Some v \<Rightarrow> if v < quo now Millisecond then None else Some v)"
  by (simp add: cleanupExpired_def Let_def)

text \<open>
  Claim C3 says that a sweep removes an entry only once its expiry instant has passed.
  The sweep compares the stored number with the clock in milliseconds, while the number
  stored is the \<^verbatim>\<open>expires\<close> parameter of the salt, which the proof-of-work library
  writes in seconds. Here a solution is accepted at 07:33:30 with the expiry 07:38:20
  (1793000300); the sweep at 07:33:40 (second 1793000020) removes the entry, and the same
  payload, submitted again at 07:33:50, is accepted a second time.
\<close>

theorem sweep_before_expiry:
  "solvedChallenges (cm (snd (run sampleEnv [Serve solvedAt sampleRequest] sampleWorld))) ''c1'' =
     Some 1793000300
   \<and> quo sweptAt (1000 * Millisecond) = 1793000020
   \<and> solvedChallenges (cm afterSweep) ''c1'' = None
   \<and> fst (serveHTTP sampleEnv replayedAt sampleRequest afterSweep) =
       Responded \<lparr>status = 200, respBody = JSONResponse \<lparr>Code = 200, Message = ''OK''\<rparr>\<rparr>"
  by (simp add: boot_def sampleEnv_def sampleConfig_def sampleWorld_def sampleRequest_def
      afterSweep_def solvedAt_def sweptAt_def replayedAt_def quo_def Millisecond_def
      cleanupExpired_def AddChallenge_def
      serveHTTP_def RateLimitMiddleware_def routes_def APIKeyMiddleware_def
      handleVerifyChallenge_def GetRealIP_def LimitByIP_def HasPrefix_def Exists_def
      NewServer_def NewRateLimiter_def NewChallengeManager_def statsOf_def zeroStats_def
      MaxRequestsPerIP_def RequestLimitWindow_def Minute_def wrap64_def
      StatusOK_def StatusBadRequest_def
      goodBody_def badBody_def goodJSON_def badJSON_def saltlessBody_def saltlessJSON_def Let_def)

subsection \<open>Complexity controller\<close>

lemma bits_pos: "0 < m \<Longrightarrow> 0 < bits m"
  by (subst bits.simps) simp

lemma bits_bounds: "0 < m \<Longrightarrow> 2 ^ (bits m - 1) \<le> m \<and> m < 2 ^ bits m"
proof (induction m rule: bits.induct)
  case (1 m)
  show ?case
  proof (cases "m div 2 \<le> 0")
    case True
    with "1.prems" have m1: "m = 1" by linarith
    have "bits (1 div 2) = 0" by (subst bits.simps) simp
    then have "bits 1 = 1" by (subst bits.simps) simp
    with m1 show ?thesis by simp
  next
    case False
    then have pos: "0 < m div 2" by simp
    let ?k = "bits (m div 2)"
    from "1.IH" "1.prems" pos have ih: "2 ^ (?k - 1) \<le> m div 2" "m div 2 < 2 ^ ?k"
      by auto
    have k: "0 < ?k" using pos by (rule bits_pos)
    have bm: "bits m = Suc ?k" using "1.prems" by (subst bits.simps) simp
    have p: "(2::int) ^ ?k = 2 * 2 ^ (?k - 1)"
      using k by (cases ?k) auto
    have "2 * (m div 2) \<le> m" "m < 2 * (m div 2) + 2" by linarith+
    with ih p show ?thesis unfolding bm by simp
  qed
qed

lemma bits_le: "0 < m \<Longrightarrow> m < 2 ^ w \<Longrightarrow> bits m \<le> w"
proof -
  assume m: "0 < m" "m < 2 ^ w"
  from bits_bounds [OF m(1)] m(2) have "(2::int) ^ (bits m - 1) < 2 ^ w" by linarith
  then have "bits m - 1 < w" by (simp add: power_strict_increasing_iff)
  then show ?thesis using bits_pos [OF m(1)] by linarith
qed

lemma rne_shift_near:
  assumes "0 \<le> m"
  shows "2 * (rne_shift m s * 2 ^ s) \<le> 2 * m + 2 ^ s \<and> 2 * m \<le> 2 * (rne_shift m s * 2 ^ s) + 2 ^ s
         \<and> 0 \<le> rne_shift m s"
proof -
  define d :: int where "d = 2 ^ s"
  define q where "q = m div d"
  define r where "r = m mod d"
  have d: "0 < d" by (simp add: d_def)
  have m: "m = q * d + r" by (simp add: q_def r_def)
  have r: "0 \<le> r" "r < d" using d by (simp_all add: r_def)
  have q: "0 \<le> q" using assms d by (simp add: q_def pos_imp_zdiv_nonneg_iff)
  have rs: "rne_shift m s = (if 2 * r < d then q else if 2 * r > d then q + 1
                             else if even q then q else q + 1)"
    by (simp add: rne_shift_def Let_def d_def q_def r_def)
  have e: "(q + 1) * d = q * d + d" by (simp add: algebra_simps)
  show ?thesis
    unfolding rs d_def [symmetric]
    using m r q e by (auto split: if_splits)
qed

lemma scaled_by_factor:
  assumes B: "0 < B" "B \<le> 2 ^ 50"
  shows "int64_of_f64 (f64_mul (f64_of_int64 B) \<lparr>mant = 5404319552844595, expo = - 52\<rparr>) =
           (6 * B) div 5"
proof -
  define P where "P = B * 5404319552844595"
  define n where "n = bits P"
  define q5 where "q5 = (6 * B) div 5"
  define r5 where "r5 = (6 * B) mod 5"
  have B50: "B \<le> 1125899906842624" using B(2) by simp
  have Ppos: "0 < P" using B(1) by (simp add: P_def)
  have six: "6 * B = 5 * q5 + r5" "0 \<le> r5" "r5 < 5"
    by (simp_all add: q5_def r5_def)
  have q5b: "0 \<le> q5" "q5 < 2 ^ 63"
    using six B(1) B50 by simp_all
  have conv: "f64_of_int64 B = \<lparr>mant = B, expo = 0\<rparr>"
  proof -
    have "B < 2 ^ 53" using B50 by simp
    then have "bits B \<le> 53" using B(1) by (intro bits_le)
    then show ?thesis using B(1) by (simp add: f64_of_int64_def f64_round_def bitlen64_def)
  qed
  have mul: "f64_mul (f64_of_int64 B) \<lparr>mant = 5404319552844595, expo = - 52\<rparr> =
             f64_round \<lparr>mant = P, expo = - 52\<rparr>"
    by (simp add: conv f64_mul_def P_def)
  have nb: "2 ^ (n - 1) \<le> P" "P < 2 ^ n"
    using bits_bounds [OF Ppos] by (simp_all add: n_def)
  have n53: "53 \<le> n"
  proof -
    have "(2::int) ^ 52 \<le> P" using B(1) by (simp add: P_def)
    with nb(2) have lt: "(2::int) ^ 52 < 2 ^ n" by linarith
    have "\<not> n \<le> 52"
    proof
      assume "n \<le> 52"
      then have "(2::int) ^ n \<le> 2 ^ 52" by (intro power_increasing) simp_all
      with lt show False by linarith
    qed
    then show ?thesis by simp
  qed
  have n103: "n \<le> 103"
  proof -
    have "P < 2 ^ 103" using B50 by (simp add: P_def)
    then show ?thesis unfolding n_def using Ppos by (intro bits_le)
  qed
  show ?thesis
  proof (cases "n = 53")
    case True
    then have "P < 9007199254740992" using nb(2) by simp
    then have "B = 1" using B(1) by (simp add: P_def)
    moreover have "bits 5404319552844595 = 53" by code_simp
    ultimately show ?thesis
      by (simp add: f64_of_int64_def f64_mul_def f64_round_def bitlen64_def bits.simps [of 1]
          bits.simps [of 0] int64_of_f64_def quo_def)
  next
    case False
    define s where "s = n - 53"
    define U :: int where "U = 2 ^ s"
    define M :: int where "M = 2 ^ (52 - s)"
    define R where "R = rne_shift P s"
    have s: "1 \<le> s" "s \<le> 50" using False n53 n103 by (simp_all add: s_def)
    have UM: "U * M = 4503599627370496"
    proof -
      have "U * M = 2 ^ (s + (52 - s))" unfolding U_def M_def by (simp add: power_add)
      also have "s + (52 - s) = 52" using s by simp
      finally show ?thesis by simp
    qed
    have Upos: "0 < U" "0 < M" by (simp_all add: U_def M_def)
    have U50: "U \<le> 1125899906842624"
    proof -
      have "U \<le> 2 ^ 50" unfolding U_def using s(2) by (intro power_increasing) simp_all
      then show ?thesis by simp
    qed
    have lowP: "U * 4503599627370496 \<le> P"
    proof -
      have "n - 1 = s + 52" using s n53 by (simp add: s_def)
      then have "(2::int) ^ (n - 1) = U * 2 ^ 52" by (simp add: U_def power_add)
      with nb(1) show ?thesis by simp
    qed
    have highP: "P < U * 9007199254740992"
    proof -
      have "n = s + 53" using s n53 by (simp add: s_def)
      then have "(2::int) ^ n = U * 2 ^ 53" by (simp add: U_def power_add)
      with nb(2) show ?thesis by simp
    qed
    have near: "2 * (R * U) \<le> 2 * P + U" "2 * P \<le> 2 * (R * U) + U" "0 \<le> R"
      using rne_shift_near [of P s] Ppos by (simp_all add: R_def U_def)
    have five: "5 * P = 6 * B * 4503599627370496 - B" by (simp add: P_def)
    have rnd: "f64_round \<lparr>mant = P, expo = - 52\<rparr> = \<lparr>mant = R, expo = int s - 52\<rparr>"
      using Ppos False n53
      by (simp add: f64_round_def bitlen64_def n_def [symmetric] s_def [symmetric] R_def)
    have upper: "R < (q5 + 1) * M"
    proof (rule ccontr)
      assume "\<not> R < (q5 + 1) * M"
      then have "(q5 + 1) * M \<le> R" by simp
      then have "(q5 + 1) * M * U \<le> R * U" using Upos by (intro mult_right_mono) simp_all
      moreover have "(q5 + 1) * M * U = q5 * 4503599627370496 + 4503599627370496"
        using UM by (simp add: algebra_simps)
      ultimately show False using near five six U50 B(1) by linarith
    qed
    have lower: "q5 * M \<le> R"
    proof (rule ccontr)
      assume "\<not> q5 * M \<le> R"
      then have "R + 1 \<le> q5 * M" by simp
      then have "(R + 1) * U \<le> q5 * M * U" using Upos by (intro mult_right_mono) simp_all
      moreover have "q5 * M * U = q5 * 4503599627370496" using UM by (simp add: algebra_simps)
      moreover have "(R + 1) * U = R * U + U" by (simp add: algebra_simps)
      ultimately show False using near five six highP B(1) by linarith
    qed
    have divq: "R div M = q5"
    proof -
      have "R = M * q5 + (R - M * q5)" by simp
      moreover have "0 \<le> R - M * q5" using lower by (simp add: mult.commute)
      moreover have "R - M * q5 < M" using upper by (simp add: algebra_simps)
      ultimately show ?thesis by (metis int_div_pos_eq)
    qed
    have ex: "nat (52 - int s) = 52 - s" using s by simp
    have quo: "quo R M = R div M"
      using near(3) Upos by (cases "R = 0") (simp_all add: quo_def)
    show ?thesis
      unfolding mul rnd
      using s q5b divq quo by (simp add: int64_of_f64_def ex M_def [symmetric] q5_def [symmetric])
  qed
qed

lemma factor25:
  "f64_add f64_one (f64_mul (f64_of_int64 (quo 25 10)) f64_tenth) =
     \<lparr>mant = 5404319552844595, expo = - 52\<rparr>"
  by code_simp

lemma getAdjustedComplexity_25:
  assumes "ipRequestCount s ip = Some 25"
    and "\<forall>lastTime. ipLastRequest s ip = Some lastTime \<longrightarrow> now - lastTime \<le> 5 * Minute"
  shows "fst (getAdjustedComplexity ip now s) =
           int64_of_f64 (f64_mul (f64_of_int64 (Complexity (config s)))
                           \<lparr>mant = 5404319552844595, expo = - 52\<rparr>)"
proof (cases "ipLastRequest s ip")
  case None
  then show ?thesis using assms(1) by (simp add: getAdjustedComplexity_def Let_def factor25)
next
  case (Some lastTime)
  with assms(2) have "\<not> now - lastTime > 5 * Minute" by auto
  then show ?thesis
    using assms(1) Some by (simp add: getAdjustedComplexity_def Let_def factor25)
qed

text \<open>
  Claim C8, as amended. For a client address whose recent-request count is 25 when a
  challenge is issued (its last request no more than five minutes old) and a base
  complexity \<open>B\<close> with \<open>0 < B \<le> 2\<^sup>5\<^sup>0\<close>, the adjusted complexity is \<open>B \<times> 1.2\<close> with the
  fraction discarded, that is \<open>(6 * B) div 5\<close>: the scaling factor is
  \<open>1 + floor (25 / 10) \<times> 0.1\<close>, the product is computed in \<^verbatim>\<open>float64\<close> and converted to
  \<^verbatim>\<open>int64\<close>. It equals \<open>B \<times> 1.2\<close> exactly when \<open>B\<close> is a multiple of 5; for the default
  50000 it is 60000.
\<close>

theorem adjusted_complexity_at_25:
  assumes "ipRequestCount s ip = Some 25"
    and "\<forall>lastTime. ipLastRequest s ip = Some lastTime \<longrightarrow> now - lastTime \<le> 5 * Minute"
    and "0 < Complexity (config s)" and "Complexity (config s) \<le> 2 ^ 50"
  shows "fst (getAdjustedComplexity ip now s) = (6 * Complexity (config s)) div 5
       \<and> (Complexity (config s) mod 5 = 0 \<longrightarrow>
            5 * fst (getAdjustedComplexity ip now s) = 6 * Complexity (config s))"
proof -
  have r: "fst (getAdjustedComplexity ip now s) = (6 * Complexity (config s)) div 5"
    using getAdjustedComplexity_25 [OF assms(1,2)] scaled_by_factor [OF assms(3,4)] by simp
  show ?thesis unfolding r by auto
qed

lemma busy_evals:
  "ipRequestCount (busyServer B) ''203.0.113.9'' = Some 25"
  "ipLastRequest (busyServer B) ''203.0.113.9'' = Some 0"
  "Complexity (config (busyServer B)) = B"
  by (simp_all add: busyServer_def NewServer_def)

theorem adjusted_complexity_at_25_witness:
  "fst (getAdjustedComplexity ''203.0.113.9'' 0 (busyServer 50000)) = 60000"
  using adjusted_complexity_at_25 [of "busyServer 50000" "''203.0.113.9''" 0]
  by (simp add: busy_evals Minute_def)

text \<open>
  Claim C8 as stated fails for a base complexity that is not a multiple of 5: for 50001
  the adjusted complexity is 60001, not 60001.2.
\<close>

theorem adjusted_complexity_counterexample:
  "fst (getAdjustedComplexity ''203.0.113.9'' 0 (busyServer 50001)) = 60001
   \<and> 5 * fst (getAdjustedComplexity ''203.0.113.9'' 0 (busyServer 50001)) \<noteq> 6 * 50001"
proof -
  have "fst (getAdjustedComplexity ''203.0.113.9'' 0 (busyServer 50001)) =
          int64_of_f64 (f64_mul (f64_of_int64 50001) \<lparr>mant = 5404319552844595, expo = - 52\<rparr>)"
    using getAdjustedComplexity_25 [of "busyServer 50001" "''203.0.113.9''" 0]
    by (simp add: busy_evals Minute_def)
  also have "\<dots> = 60001" by code_simp
  finally show ?thesis by simp
qed

subsection \<open>Rate limiter: served requests\<close>

lemma routes_limiter: "limiter (worldOf (routes e now ctx r w)) = limiter w"
proof (cases "reqRoute r")
  case Root
  then show ?thesis by (simp add: routes_def handleRoot_frame)
next
  case GetChallengeRoute
  from APIKeyMiddleware_cases [of handleGetChallenge e now ctx r w] GetChallengeRoute
  show ?thesis
    using handleGet_frame [of e now "Some (apiKeyParam r)" r w]
    by (auto simp: routes_def worldOf_def)
next
  case VerifyChallengeRoute
  from APIKeyMiddleware_cases [of handleVerifyChallenge e now ctx r w] VerifyChallengeRoute
  show ?thesis
    using handleVerify_limiter [of e now "Some (apiKeyParam r)" r w]
    by (auto simp: routes_def worldOf_def)
next
  case NoRoute
  then show ?thesis by (simp add: routes_def worldOf_def)
qed

lemma handleVerify_not429:
  "statusOf (handleVerifyChallenge e now ctx r w) \<noteq> Some 429"
proof (cases "ctx = None \<or> Body r = None")
  case True
  then show ?thesis
    by (auto simp: handleVerifyChallenge_def statusOf_def writeErrorResponse_def
        StatusBadRequest_def StatusInternalServerError_def split: option.splits)
next
  case False
  then obtain k b where kb: "ctx = Some k" "Body r = Some b" by auto
  show ?thesis
  proof (cases "solutionOf e (TrimSpace e b)")
    case None
    from malformed_payload_outcome [OF kb(2) None, of now k w] kb(1) show ?thesis
      by (auto simp: statusOf_def writeErrorResponse_def StatusBadRequest_def)
  next
    case (Some sol)
    then obtain cid ex where "solutionOf e (TrimSpace e b) = Some (cid, ex)" by (cases sol) auto
    from handleVerify_wellformed [OF kb(2) this, of now k w] kb(1)
    show ?thesis
      by (auto simp: statusOf_def writeErrorResponse_def StatusOK_def StatusConflict_def
          StatusInternalServerError_def split: if_splits sum.splits)
  qed
qed

lemma handleGet_not429:
  "statusOf (handleGetChallenge e now ctx r w) \<noteq> Some 429"
  by (simp add: handleGetChallenge_def statusOf_def Let_def writeErrorResponse_def
      StatusOK_def StatusInternalServerError_def split_beta
      split: option.splits sum.splits)

lemma routes_not429: "statusOf (routes e now ctx r w) \<noteq> Some 429"
proof (cases "reqRoute r")
  case Root
  then show ?thesis by (simp add: routes_def handleRoot_def statusOf_def StatusOK_def)
next
  case GetChallengeRoute
  from APIKeyMiddleware_cases [of handleGetChallenge e now ctx r w] GetChallengeRoute
  show ?thesis
    using handleGet_not429 [of e now "Some (apiKeyParam r)" r w]
    by (auto simp: routes_def statusOf_def writeErrorResponse_def StatusUnauthorized_def
        StatusForbidden_def)
next
  case VerifyChallengeRoute
  from APIKeyMiddleware_cases [of handleVerifyChallenge e now ctx r w] VerifyChallengeRoute
  show ?thesis
    using handleVerify_not429 [of e now "Some (apiKeyParam r)" r w]
    by (auto simp: routes_def statusOf_def writeErrorResponse_def StatusUnauthorized_def
        StatusForbidden_def)
next
  case NoRoute
  then show ?thesis by (simp add: routes_def statusOf_def StatusNotFound_def)
qed

lemma serveHTTP_limiter:
  "ipLimits (limiter (worldOf (serveHTTP e now r w))) =
     snd (LimitByIP (GetRealIP e r) MaxRequestsPerIP RequestLimitWindow now (ipLimits (limiter w)))"
proof -
  let ?lim = "LimitByIP (GetRealIP e r) MaxRequestsPerIP RequestLimitWindow now (ipLimits (limiter w))"
  let ?w1 = "w\<lparr>limiter := (limiter w)\<lparr>ipLimits := snd ?lim\<rparr>\<rparr>"
  show ?thesis
  proof (cases "fst ?lim")
    case True
    then have "serveHTTP e now r w = routes e now None r ?w1"
      by (simp add: serveHTTP_routes Let_def)
    then show ?thesis using routes_limiter [of e now None r ?w1] by simp
  next
    case False
    then show ?thesis by (simp add: serveHTTP_routes Let_def worldOf_def)
  qed
qed

lemma LimitByIP_other:
  "ip' \<noteq> ip \<Longrightarrow> snd (LimitByIP ip' limit window t store) ip = store ip"
  by (simp add: LimitByIP_def Let_def)

lemma fromAddr_simps:
  "fromAddr e ip (Serve now r) = (GetRealIP e r = ip)"
  "fromAddr e ip (Tick now) = False"
  by (simp_all add: fromAddr_def)

lemma run_limiter:
  "ipLimits (limiter w) ip = Some \<lparr>Count = c, ResetAt = b\<rparr> \<Longrightarrow> 0 \<le> c \<Longrightarrow> c \<le> 100 \<Longrightarrow>
   \<forall>t r. Serve t r \<in> set evs \<and> GetRealIP e r = ip \<longrightarrow> t \<le> b \<Longrightarrow>
   ipLimits (limiter (snd (run e evs w))) ip =
     Some \<lparr>Count = min 100 (c + int (length (filter (fromAddr e ip) evs))), ResetAt = b\<rparr>"
proof (induction evs arbitrary: w c)
  case Nil
  then show ?case by (simp add: min_def)
next
  case (Cons ev evs)
  show ?case
  proof (cases ev)
    case (Tick now)
    have "ipLimits (limiter (w\<lparr>cm := cleanupExpired now (cm w)\<rparr>)) ip = Some \<lparr>Count = c, ResetAt = b\<rparr>"
      using Cons.prems(1) by simp
    from Cons.IH [OF this Cons.prems(2,3)] Cons.prems(4) Tick show ?thesis
      by (simp add: fromAddr_simps)
  next
    case (Serve now r)
    let ?h = "serveHTTP e now r w"
    have run_eq: "snd (run e (ev # evs) w) = snd (run e evs (worldOf ?h))"
      using Serve by (simp add: split_beta worldOf_def)
    have rest: "\<forall>t r. Serve t r \<in> set evs \<and> GetRealIP e r = ip \<longrightarrow> t \<le> b"
      using Cons.prems(4) by auto
    show ?thesis
    proof (cases "GetRealIP e r = ip")
      case False
      have "ipLimits (limiter (worldOf ?h)) ip = Some \<lparr>Count = c, ResetAt = b\<rparr>"
        using Cons.prems(1) False by (simp add: serveHTTP_limiter LimitByIP_other)
      from Cons.IH [OF this Cons.prems(2,3) rest] Serve False show ?thesis
        unfolding run_eq by (simp add: fromAddr_simps)
    next
      case True
      have tb: "now \<le> b" using Cons.prems(4) Serve True by auto
      let ?c' = "if c < 100 then c + 1 else c"
      have "ipLimits (limiter (worldOf ?h)) ip = Some \<lparr>Count = ?c', ResetAt = b\<rparr>"
        using LimitByIP_within [of "ipLimits (limiter w)" ip c b now MaxRequestsPerIP
            RequestLimitWindow] Cons.prems(1) tb True
        by (simp add: serveHTTP_limiter MaxRequestsPerIP_def)
      moreover have "0 \<le> ?c'" "?c' \<le> 100" using Cons.prems(2,3) by auto
      ultimately have "ipLimits (limiter (snd (run e evs (worldOf ?h)))) ip =
          Some \<lparr>Count = min 100 (?c' + int (length (filter (fromAddr e ip) evs))), ResetAt = b\<rparr>"
        using rest by (intro Cons.IH)
      then show ?thesis
        unfolding run_eq using Serve True Cons.prems(2,3) by (auto simp: fromAddr_simps min_def)
    qed
  qed
qed

lemma serveHTTP_admitted:
  "LimitByIP (GetRealIP e r) MaxRequestsPerIP RequestLimitWindow now (ipLimits (limiter w)) =
     (True, store) \<Longrightarrow>
   serveHTTP e now r w = routes e now None r (w\<lparr>limiter := (limiter w)\<lparr>ipLimits := store\<rparr>\<rparr>) \<and>
   statusOf (serveHTTP e now r w) \<noteq> Some 429"
  by (simp add: serveHTTP_routes Let_def routes_not429)

lemma serveHTTP_limited:
  "LimitByIP (GetRealIP e r) MaxRequestsPerIP RequestLimitWindow now (ipLimits (limiter w)) =
     (False, ipLimits (limiter w)) \<Longrightarrow>
   serveHTTP e now r w =
     (Responded \<lparr>status = 429,
        respBody = JSONResponse \<lparr>Code = 400, Message = ''Rate limit exceeded''\<rparr>\<rparr>, [], w)"
  by (simp add: serveHTTP_routes Let_def writeErrorResponse_def StatusTooManyRequests_def)

text \<open>
  Claim C7. With the ceiling 100 and the window of ten minutes, let the server receive a
  first request from a client address the limiter does not know, at the instant \<open>t0\<close>,
  and then any requests and sweeps, those from that address no later than
  \<open>t0 + RequestLimitWindow\<close>; let \<open>k\<close> be the number of requests served from the address
  so far. The first request is admitted (handed to the router, its count set to 1). The
  next request from the address inside the window is admitted when \<open>k < 100\<close>, with the
  count becoming \<open>k + 1\<close>, and is answered with status 429, the state unchanged, when
  \<open>k \<ge> 100\<close>: the 1st to 100th requests are admitted and the 101st is rejected. A
  request after the window boundary is admitted, the count starting again at 1. No
  admitted request is answered with 429.
\<close>

theorem rate_limit_fixed_window:
  assumes fresh: "ipLimits (limiter w) ip = None"
    and first: "GetRealIP e r0 = ip"
    and within: "\<forall>t r. Serve t r \<in> set evs \<and> GetRealIP e r = ip \<longrightarrow> t \<le> t0 + RequestLimitWindow"
    and nxt: "GetRealIP e r = ip"
    and k: "k = Suc (length (filter (fromAddr e ip) evs))"
    and w': "w' = snd (run e (Serve t0 r0 # evs) w)"
  shows "serveHTTP e t0 r0 w =
           routes e t0 None r0 (w\<lparr>limiter := (limiter w)\<lparr>ipLimits := (ipLimits (limiter w))
              (ip \<mapsto> \<lparr>Count = 1, ResetAt = t0 + RequestLimitWindow\<rparr>)\<rparr>\<rparr>)
       \<and> statusOf (serveHTTP e t0 r0 w) \<noteq> Some 429
       \<and> (k < 100 \<and> t \<le> t0 + RequestLimitWindow \<longrightarrow>
            serveHTTP e t r w' =
              routes e t None r (w'\<lparr>limiter := (limiter w')\<lparr>ipLimits := (ipLimits (limiter w'))
                 (ip \<mapsto> \<lparr>Count = int k + 1, ResetAt = t0 + RequestLimitWindow\<rparr>)\<rparr>\<rparr>)
            \<and> statusOf (serveHTTP e t r w') \<noteq> Some 429)
       \<and> (100 \<le> k \<and> t \<le> t0 + RequestLimitWindow \<longrightarrow>
            serveHTTP e t r w' =
              (Responded \<lparr>status = 429,
                 respBody = JSONResponse \<lparr>Code = 400, Message = ''Rate limit exceeded''\<rparr>\<rparr>, [], w'))
       \<and> (t0 + RequestLimitWindow < t \<longrightarrow>
            serveHTTP e t r w' =
              routes e t None r (w'\<lparr>limiter := (limiter w')\<lparr>ipLimits := (ipLimits (limiter w'))
                 (ip \<mapsto> \<lparr>Count = 1, ResetAt = t + RequestLimitWindow\<rparr>)\<rparr>\<rparr>)
            \<and> statusOf (serveHTTP e t r w') \<noteq> Some 429)"
proof -
  let ?b = "t0 + RequestLimitWindow"
  let ?L = "\<lambda>now store. LimitByIP ip MaxRequestsPerIP RequestLimitWindow now store"
  let ?h0 = "serveHTTP e t0 r0 w"
  let ?s = "ipLimits (limiter w')"
  have l0: "?L t0 (ipLimits (limiter w)) =
      (True, (ipLimits (limiter w))(ip \<mapsto> \<lparr>Count = 1, ResetAt = ?b\<rparr>))"
    using fresh by (simp add: LimitByIP_fresh MaxRequestsPerIP_def)
  have c0: "serveHTTP e t0 r0 w =
           routes e t0 None r0 (w\<lparr>limiter := (limiter w)\<lparr>ipLimits := (ipLimits (limiter w))
              (ip \<mapsto> \<lparr>Count = 1, ResetAt = ?b\<rparr>)\<rparr>\<rparr>)
       \<and> statusOf (serveHTTP e t0 r0 w) \<noteq> Some 429"
    using l0 first by (intro serveHTTP_admitted) simp
  have s0: "ipLimits (limiter (worldOf ?h0)) ip = Some \<lparr>Count = 1, ResetAt = ?b\<rparr>"
    using l0 first by (simp add: serveHTTP_limiter)
  have w'_eq: "w' = snd (run e evs (worldOf ?h0))"
    unfolding w' by (simp add: split_beta worldOf_def)
  have "ipLimits (limiter w') ip =
      Some \<lparr>Count = min 100 (1 + int (length (filter (fromAddr e ip) evs))), ResetAt = ?b\<rparr>"
    unfolding w'_eq using s0 within by (intro run_limiter) simp_all
  then have st: "?s ip = Some \<lparr>Count = min 100 (int k), ResetAt = ?b\<rparr>"
    using k by simp
  have c1: "serveHTTP e t r w' =
              routes e t None r (w'\<lparr>limiter := (limiter w')\<lparr>ipLimits := ?s
                 (ip \<mapsto> \<lparr>Count = int k + 1, ResetAt = ?b\<rparr>)\<rparr>\<rparr>)
            \<and> statusOf (serveHTTP e t r w') \<noteq> Some 429"
    if "k < 100" "t \<le> ?b"
  proof -
    have "?L t ?s = (True, ?s(ip \<mapsto> \<lparr>Count = int k + 1, ResetAt = ?b\<rparr>))"
      using LimitByIP_within [of ?s ip "int k" ?b t MaxRequestsPerIP RequestLimitWindow] st that
      by (simp add: MaxRequestsPerIP_def min_def)
    then show ?thesis using nxt by (intro serveHTTP_admitted) simp
  qed
  have c2: "serveHTTP e t r w' =
              (Responded \<lparr>status = 429,
                 respBody = JSONResponse \<lparr>Code = 400, Message = ''Rate limit exceeded''\<rparr>\<rparr>, [], w')"
    if "100 \<le> k" "t \<le> ?b"
  proof -
    have st100: "?s ip = Some \<lparr>Count = 100, ResetAt = ?b\<rparr>"
      using st that(1) by (simp add: min_def)
    have "?L t ?s = (False, ?s)"
      using LimitByIP_within [of ?s ip 100 ?b t MaxRequestsPerIP RequestLimitWindow] st100 that(2)
      by (simp add: MaxRequestsPerIP_def fun_upd_idem)
    then show ?thesis using nxt by (intro serveHTTP_limited) simp
  qed
  have c3: "serveHTTP e t r w' =
              routes e t None r (w'\<lparr>limiter := (limiter w')\<lparr>ipLimits := ?s
                 (ip \<mapsto> \<lparr>Count = 1, ResetAt = t + RequestLimitWindow\<rparr>)\<rparr>\<rparr>)
            \<and> statusOf (serveHTTP e t r w') \<noteq> Some 429"
    if "?b < t"
  proof -
    have "?L t ?s = (True, ?s(ip \<mapsto> \<lparr>Count = 1, ResetAt = t + RequestLimitWindow\<rparr>))"
      using LimitByIP_elapsed [of ?s ip "min 100 (int k)" ?b t MaxRequestsPerIP RequestLimitWindow]
        st that
      by (simp add: MaxRequestsPerIP_def)
    then show ?thesis using nxt by (intro serveHTTP_admitted) simp
  qed
  show ?thesis using c0 c1 c2 c3 by blast
qed

lemma filter_all_replicate: "P x \<Longrightarrow> filter P (replicate n x) = replicate n x"
  by (induction n) simp_all

theorem rate_limit_fixed_window_witness:
  "statusOf (serveHTTP sampleEnv 0 keylessRequest sampleWorld) \<noteq> Some 429
   \<and> statusOf (serveHTTP sampleEnv 2 keylessRequest
        (snd (run sampleEnv (Serve 0 keylessRequest # replicate 98 (Serve 1 keylessRequest))
                sampleWorld))) \<noteq> Some 429
   \<and> serveHTTP sampleEnv 2 keylessRequest
        (snd (run sampleEnv (Serve 0 keylessRequest # replicate 99 (Serve 1 keylessRequest))
                sampleWorld)) =
       (Responded \<lparr>status = 429,
          respBody = JSONResponse \<lparr>Code = 400, Message = ''Rate limit exceeded''\<rparr>\<rparr>, [],
        snd (run sampleEnv (Serve 0 keylessRequest # replicate 99 (Serve 1 keylessRequest))
                sampleWorld))
   \<and> statusOf (serveHTTP sampleEnv (RequestLimitWindow + 1) keylessRequest
        (snd (run sampleEnv (Serve 0 keylessRequest # replicate 99 (Serve 1 keylessRequest))
                sampleWorld))) \<noteq> Some 429"
proof -
  let ?ip = "''203.0.113.9''"
  have fresh: "ipLimits (limiter sampleWorld) ?ip = None"
    by (simp add: sampleWorld_def NewRateLimiter_def)
  have addr: "GetRealIP sampleEnv keylessRequest = ?ip" by (rule sample_evals(3))
  have src: "fromAddr sampleEnv ?ip (Serve 1 keylessRequest)"
    by (simp add: fromAddr_simps addr)
  have within: "\<forall>t r. Serve t r \<in> set (replicate n (Serve 1 keylessRequest)) \<and>
      GetRealIP sampleEnv r = ?ip \<longrightarrow> t \<le> 0 + RequestLimitWindow" for n
    by (auto simp: RequestLimitWindow_def Minute_def)
  have k99: "99 = Suc (length (filter (fromAddr sampleEnv ?ip) (replicate 98 (Serve 1 keylessRequest))))"
    using src by (simp add: filter_all_replicate)
  have k100: "100 = Suc (length (filter (fromAddr sampleEnv ?ip) (replicate 99 (Serve 1 keylessRequest))))"
    using src by (simp add: filter_all_replicate)
  have w: "(2::int) \<le> 0 + RequestLimitWindow" "0 + RequestLimitWindow < RequestLimitWindow + 1"
    by (simp_all add: RequestLimitWindow_def Minute_def)
  have n: "(99::nat) < 100" "(100::nat) \<le> 100" by simp_all
  show ?thesis
    using rate_limit_fixed_window [OF fresh addr within addr k99 refl, where t = 2]
      rate_limit_fixed_window [OF fresh addr within addr k100 refl, where t = 2]
      rate_limit_fixed_window [OF fresh addr within addr k100 refl, where t = "RequestLimitWindow + 1"]
      w n
    by blast
qed

end
